theory Spec2Isabelle
  imports Complex_Main
begin

section \<open>Export-to-FINN verification notebook: data model\<close>

text \<open>
  The notebook \<^verbatim>\<open>2-export-to-finn-and-verify.ipynb\<close> is a sequence of cells over
  external libraries (the FINN compiler, PyTorch/Brevitas, NumPy). The cells are embedded
  one by one; every call into an external library is a parameter of the model (the record
  \<open>library\<close>), and every exception is a value \<open>Inl e\<close>.

  The calls that the model lets fail are: the load of the model file, the two calls of
  \<^verbatim>\<open>showInNetron\<close>, the six passes, the indexing of the graph's inputs and outputs, the
  save, the load of the data set, the construction of the network with the load of its
  checkpoint, and in the loop the indexing and reshape of the sample, the forward pass,
  the padding and reshape of the engine's input, the execution of the graph and the lookup
  of its output. The import statements, the prints, the progress bar (\<^verbatim>\<open>trange\<close>,
  \<^verbatim>\<open>set_description\<close>, \<^verbatim>\<open>refresh\<close>), \<^verbatim>\<open>eval()\<close>, the slicing of the data set and
  the conversions between tensors and arrays are taken to return. The message of the last
  cell is the field \<open>printed\<close> of a run's report.

  Numbers: tensors hold 32-bit floats in the notebook. A float is modelled by the real
  number it denotes; the only arithmetic the notebook itself does on them is \<open>2 * x - 1\<close>
  on values 0 and 1 (exact in floating point) and comparisons. The sigmoid is
  \<^verbatim>\<open>torch.sigmoid\<close>, a function of the library that rounds to 32 bits, and is a
  parameter of the model.
\<close>

datatype error =
    FileNotFoundError string
  | IndexError
  | KeyError string
  | ShapeError
  | LibraryError string

text \<open>A tensor (torch tensor or NumPy array): its shape and its elements in row-major order.\<close>

record tensor =
  shape :: "nat list"
  elems :: "real list"

datatype DataType = BINARY | BIPOLAR | TERNARY | FLOAT32

datatype transformation =
    InferShapes
  | FoldConstants
  | GiveUniqueNodeNames
  | GiveReadableTensorNames
  | InferDataTypes
  | RemoveStaticGraphInputs

text \<open>
  Modelled from the spec: the class \<^verbatim>\<open>finn.core.modelwrapper.ModelWrapper\<close> is not
  part of the notebook. The notebook reads from it the names of the graph's inputs and
  outputs, a tensor's shape and a tensor's datatype annotation, and it marks a tensor's
  datatype. The wrapper is a record of exactly these; the nodes and weights of the graph
  stay opaque (\<open>'g\<close>).
\<close>

record 'g ModelWrapper =
  nodes :: 'g
  graph_input :: "string list"
  graph_output :: "string list"
  tensor_shapes :: "string \<rightharpoonup> nat list"
  tensor_datatypes :: "string \<rightharpoonup> DataType"

text \<open>
  Modelled from the spec: \<^verbatim>\<open>get_tensor_shape\<close>, \<^verbatim>\<open>set_tensor_datatype\<close> and
  \<^verbatim>\<open>get_tensor_datatype\<close> of the absent ModelWrapper ("mark an input tensor's
  datatype"): marking stores the annotation under the tensor's name, reading returns the
  stored annotation, and a tensor without annotation reads as FLOAT32.
\<close>

definition get_tensor_shape :: "'g ModelWrapper \<Rightarrow> string \<Rightarrow> nat list option" where
  "get_tensor_shape m name = tensor_shapes m name"

definition set_tensor_datatype :: "'g ModelWrapper \<Rightarrow> string \<Rightarrow> DataType \<Rightarrow> 'g ModelWrapper" where
  "set_tensor_datatype m name dt = m\<lparr>tensor_datatypes := (tensor_datatypes m)(name \<mapsto> dt)\<rparr>"

definition get_tensor_datatype :: "'g ModelWrapper \<Rightarrow> string \<Rightarrow> DataType" where
  "get_tensor_datatype m name =
     (case tensor_datatypes m name of None \<Rightarrow> FLOAT32 | Some dt \<Rightarrow> dt)"

text \<open>
  The reference network: an \<^verbatim>\<open>nn.Sequential\<close> with Dropout layers. Its forward pass is
  external; it depends on the module's training flag and, through Dropout, on the random
  numbers \<open>'r\<close> drawn during the call. The output layer has \<^verbatim>\<open>num_classes = 1\<close>, so the
  output for one sample is an array of shape (1, 1), represented by its single element.
\<close>

record 'r brevitas_model =
  training :: bool
  net :: "bool \<Rightarrow> 'r \<Rightarrow> tensor \<Rightarrow> error + real"

definition eval_mode :: "'r brevitas_model \<Rightarrow> 'r brevitas_model" where
  "eval_mode bm = bm\<lparr>training := False\<rparr>"

definition forward :: "'r brevitas_model \<Rightarrow> 'r \<Rightarrow> tensor \<Rightarrow> error + real" where
  "forward bm r x = net bm (training bm) r x"

text \<open>
  Modelled from the spec: the constructor \<^verbatim>\<open>ModelWrapper(path)\<close> and the method
  \<^verbatim>\<open>save\<close> of the absent class ("consumes a serialized model file and produces a
  normalized serialized model file"). The disk maps a file name to the wrapper that the
  file holds; a file that is missing cannot be loaded, and a save that returns has stored
  the wrapper under the file's name.
\<close>

type_synonym 'g disk = "string \<rightharpoonup> 'g ModelWrapper"

text \<open>
  The external calls:
  \<^item> \<^verbatim>\<open>showInNetron(path)\<close>: the exception it raises, if any, for the files on disk;
  \<^item> \<^verbatim>\<open>model.transform(T())\<close>;
  \<^item> \<^verbatim>\<open>model.save(path)\<close>: when the save raises, the exception and the disk as the
    failed save left it;
  \<^item> \<^verbatim>\<open>oxe.execute_onnx\<close> (the output dictionary maps a tensor name to the single
    element of a (1, 1) array);
  \<^item> the rows of \<^verbatim>\<open>UNSW_NB15_quantized(...).data\<close>;
  \<^item> the network that results from constructing the \<^verbatim>\<open>nn.Sequential\<close> and loading
    \<^verbatim>\<open>state_dict.pth\<close> into it;
  \<^item> \<^verbatim>\<open>torch.sigmoid\<close> on one element.
\<close>

record ('g, 'r) library =
  showInNetron :: "'g disk \<Rightarrow> string \<Rightarrow> error option"
  transform :: "transformation \<Rightarrow> 'g ModelWrapper \<Rightarrow> error + 'g ModelWrapper"
  save_failure :: "'g disk \<Rightarrow> string \<Rightarrow> 'g ModelWrapper \<Rightarrow> (error \<times> 'g disk) option"
  execute_onnx :: "'g ModelWrapper \<Rightarrow> (string \<rightharpoonup> tensor) \<Rightarrow> error + (string \<rightharpoonup> real)"
  UNSW_NB15_quantized :: "error + real list list"
  load_state_dict :: "error + (bool \<Rightarrow> 'r \<Rightarrow> tensor \<Rightarrow> error + real)"
  torch_sigmoid :: "real \<Rightarrow> real"

section \<open>Cells 2 to 5: import, visualisation, tidy-up, marking the input, saving\<close>

definition model_file_path :: string where
  "model_file_path = ''cybsec-mlp.onnx''"

definition verified_model_filename :: string where
  "verified_model_filename = ''cybsec-mlp-verified.onnx''"

definition load_model :: "'g disk \<Rightarrow> string \<Rightarrow> error + 'g ModelWrapper" where
  "load_model d path = (case d path of None \<Rightarrow> Inl (FileNotFoundError path) | Some m \<Rightarrow> Inr m)"

definition save ::
  "('g, 'r) library \<Rightarrow> 'g disk \<Rightarrow> string \<Rightarrow> 'g ModelWrapper \<Rightarrow> (error \<times> 'g disk) + 'g disk" where
  "save L d path m =
     (case save_failure L d path m of
        Some (e, d') \<Rightarrow> Inl (e, d')
      | None \<Rightarrow> Inr (d(path \<mapsto> m)))"

text \<open>Cell 4: six assignments \<^verbatim>\<open>model_for_sim = model_for_sim.transform(T())\<close>.\<close>

definition tidy_up :: "('g, 'r) library \<Rightarrow> 'g ModelWrapper \<Rightarrow> error + 'g ModelWrapper" where
  "tidy_up L m0 =
     (case transform L InferShapes m0 of Inl e \<Rightarrow> Inl e | Inr m1 \<Rightarrow>
      case transform L FoldConstants m1 of Inl e \<Rightarrow> Inl e | Inr m2 \<Rightarrow>
      case transform L GiveUniqueNodeNames m2 of Inl e \<Rightarrow> Inl e | Inr m3 \<Rightarrow>
      case transform L GiveReadableTensorNames m3 of Inl e \<Rightarrow> Inl e | Inr m4 \<Rightarrow>
      case transform L InferDataTypes m4 of Inl e \<Rightarrow> Inl e | Inr m5 \<Rightarrow>
      transform L RemoveStaticGraphInputs m5)"

text \<open>The globals that cell 5 leaves behind for the execution of the graph.\<close>

record 'g prepared =
  model_for_sim :: "'g ModelWrapper"
  finnonnx_in_tensor_name :: string
  finnonnx_out_tensor_name :: string
  finnonnx_model_in_shape :: "nat list option"

text \<open>
  Cell 5 without its prints and without the save: \<^verbatim>\<open>graph.input[0]\<close> and
  \<^verbatim>\<open>graph.output[0]\<close> raise IndexError on an empty list.
\<close>

definition mark_input :: "'g ModelWrapper \<Rightarrow> error + 'g prepared" where
  "mark_input m =
     (case graph_input m of [] \<Rightarrow> Inl IndexError | i # _ \<Rightarrow>
      case graph_output m of [] \<Rightarrow> Inl IndexError | out # _ \<Rightarrow>
        Inr \<lparr>model_for_sim = set_tensor_datatype m i BIPOLAR,
             finnonnx_in_tensor_name = i,
             finnonnx_out_tensor_name = out,
             finnonnx_model_in_shape = get_tensor_shape m i\<rparr>)"

text \<open>
  Cells 2 to 5 in sequence: the load, \<^verbatim>\<open>showInNetron(model_file_path)\<close>, the passes,
  the marking, and the save as the last statement. A failure comes with the disk as it is
  then.
\<close>

definition prepare ::
  "('g, 'r) library \<Rightarrow> 'g disk \<Rightarrow> (error \<times> 'g disk) + ('g disk \<times> 'g prepared)" where
  "prepare L d =
     (case load_model d model_file_path of Inl e \<Rightarrow> Inl (e, d) | Inr m0 \<Rightarrow>
      case showInNetron L d model_file_path of Some e \<Rightarrow> Inl (e, d) | None \<Rightarrow>
      case tidy_up L m0 of Inl e \<Rightarrow> Inl (e, d) | Inr m \<Rightarrow>
      case mark_input m of Inl e \<Rightarrow> Inl (e, d) | Inr p \<Rightarrow>
      case save L d verified_model_filename (model_for_sim p) of
        Inl (e, d') \<Rightarrow> Inl (e, d')
      | Inr d' \<Rightarrow> Inr (d', p))"

section \<open>Cells 7 to 10: the inputs and the two execution paths\<close>

definition n_verification_inputs :: nat where
  "n_verification_inputs = 100"

text \<open>\<^verbatim>\<open>data[:n_verification_inputs, :-1]\<close>: the first rows, each without its last column.\<close>

definition input_tensor :: "real list list \<Rightarrow> real list list" where
  "input_tensor data = map butlast (take n_verification_inputs data)"

definition reshape :: "tensor \<Rightarrow> nat list \<Rightarrow> error + tensor" where
  "reshape t shp =
     (if prod_list shp = length (elems t) then Inr \<lparr>shape = shp, elems = elems t\<rparr>
      else Inl ShapeError)"

text \<open>\<^verbatim>\<open>input_tensor[i].reshape((1, 593))\<close>\<close>

definition current_input :: "real list list \<Rightarrow> nat \<Rightarrow> error + tensor" where
  "current_input inp i =
     (if i < length inp then reshape \<lparr>shape = [length (inp ! i)], elems = inp ! i\<rparr> [1, 593]
      else Inl IndexError)"

definition inference_with_brevitas ::
  "('g, 'r) library \<Rightarrow> 'r brevitas_model \<Rightarrow> 'r \<Rightarrow> tensor \<Rightarrow> error + real" where
  "inference_with_brevitas L bm r current_inp =
     (case forward bm r current_inp of Inl e \<Rightarrow> Inl e | Inr brevitas_output \<Rightarrow>
        let brevitas_output = torch_sigmoid L brevitas_output;
            brevitas_output = (if brevitas_output > 1 / 2 then 1 else 0) * 1;
            brevitas_output = 2 * brevitas_output - 1
        in Inr brevitas_output)"

text \<open>
  \<^verbatim>\<open>np.pad(a, [(0, 0), (0, k)])\<close> on a two-dimensional array appends \<open>k\<close> zeros to every
  row; on an array of another rank the pad widths do not fit and NumPy raises.
\<close>

definition rows_of :: "nat \<Rightarrow> nat \<Rightarrow> 'a list \<Rightarrow> 'a list list" where
  "rows_of r c xs = map (\<lambda>i. take c (drop (i * c) xs)) [0..<r]"

definition np_pad :: "tensor \<Rightarrow> nat \<Rightarrow> error + tensor" where
  "np_pad t k =
     (case shape t of
        [r, c] \<Rightarrow> Inr \<lparr>shape = [r, c + k],
                       elems = concat (map (\<lambda>row. row @ replicate k 0) (rows_of r c (elems t)))\<rparr>
      | _ \<Rightarrow> Inl ShapeError)"

text \<open>
  The graph's input shape is what \<^verbatim>\<open>get_tensor_shape\<close> returned in cell 5; when that is
  \<^verbatim>\<open>None\<close>, \<^verbatim>\<open>reshape(None)\<close> returns the array as it is.
\<close>

definition inference_with_finn_onnx ::
  "('g, 'r) library \<Rightarrow> 'g prepared \<Rightarrow> tensor \<Rightarrow> error + real" where
  "inference_with_finn_onnx L p current_inp =
     (case np_pad current_inp 7 of Inl e \<Rightarrow> Inl e | Inr padded \<Rightarrow>
      let scaled = padded\<lparr>elems := map (\<lambda>x. 2 * x - 1) (elems padded)\<rparr> in
      case (case finnonnx_model_in_shape p of None \<Rightarrow> Inr scaled
            | Some shp \<Rightarrow> reshape scaled shp) of Inl e \<Rightarrow> Inl e | Inr current_inp \<Rightarrow>
      let input_dict = Map.empty(finnonnx_in_tensor_name p \<mapsto> current_inp) in
      case execute_onnx L (model_for_sim p) input_dict of Inl e \<Rightarrow> Inl e | Inr output_dict \<Rightarrow>
      case output_dict (finnonnx_out_tensor_name p) of
        None \<Rightarrow> Inl (KeyError (finnonnx_out_tensor_name p))
      | Some finn_output \<Rightarrow> Inr finn_output)"

section \<open>Cell 11: the verification loop, and cell 13: the verdict\<close>

text \<open>
  The body of the loop after \<^verbatim>\<open>current_inp\<close> is bound: both paths run on the same
  tensor, then \<^verbatim>\<open>ok += 1 if finn_output == brevitas_output else 0\<close> and
  \<^verbatim>\<open>nok += 1 if finn_output != brevitas_output else 0\<close>.
\<close>

definition compare_outputs ::
  "('g, 'r) library \<Rightarrow> 'g prepared \<Rightarrow> 'r brevitas_model \<Rightarrow> 'r \<Rightarrow> tensor \<Rightarrow> nat \<times> nat
     \<Rightarrow> error + nat \<times> nat" where
  "compare_outputs L p bm r current_inp t =
     (case inference_with_brevitas L bm r current_inp of Inl e \<Rightarrow> Inl e
      | Inr brevitas_output \<Rightarrow>
      case inference_with_finn_onnx L p current_inp of Inl e \<Rightarrow> Inl e | Inr finn_output \<Rightarrow>
        Inr (fst t + (if finn_output = brevitas_output then 1 else 0),
             snd t + (if finn_output \<noteq> brevitas_output then 1 else 0)))"

definition verify_body ::
  "('g, 'r) library \<Rightarrow> 'g prepared \<Rightarrow> real list list \<Rightarrow> 'r brevitas_model \<Rightarrow> (nat \<Rightarrow> 'r)
     \<Rightarrow> nat \<Rightarrow> nat \<times> nat \<Rightarrow> error + nat \<times> nat" where
  "verify_body L p inp bm rng i t =
     (case current_input inp i of Inl e \<Rightarrow> Inl e
      | Inr current_inp \<Rightarrow> compare_outputs L p bm (rng i) current_inp t)"

text \<open>
  The loop over the indices; the counters are \<open>(ok, nok)\<close>. An exception in an iteration
  ends the loop, with the counters as the completed iterations left them.
\<close>

fun verify_loop ::
  "('g, 'r) library \<Rightarrow> 'g prepared \<Rightarrow> real list list \<Rightarrow> 'r brevitas_model \<Rightarrow> (nat \<Rightarrow> 'r)
     \<Rightarrow> nat list \<Rightarrow> nat \<times> nat \<Rightarrow> (error \<times> (nat \<times> nat)) + nat \<times> nat" where
  "verify_loop L p inp bm rng [] t = Inr t"
| "verify_loop L p inp bm rng (i # is) t =
     (case verify_body L p inp bm rng i t of
        Inl e \<Rightarrow> Inl (e, t)
      | Inr t' \<Rightarrow> verify_loop L p inp bm rng is t')"

definition msg_succeeded :: string where
  "msg_succeeded =
     ''Verification succeeded. Brevitas and FINN-ONNX execution outputs are identical''"

definition msg_failed :: string where
  "msg_failed =
     ''Verification failed. Brevitas and FINN-ONNX execution outputs are NOT identical''"

definition final_message :: "nat \<Rightarrow> string" where
  "final_message ok = (if ok = n_verification_inputs then msg_succeeded else msg_failed)"

section \<open>The notebook, run top to bottom\<close>

text \<open>
  What is left when a cell raises: the exception, the files on disk, and the counters if
  the loop had started.
\<close>

record 'g abort =
  raised :: error
  disk_then :: "'g disk"
  tally_then :: "(nat \<times> nat) option"

record 'g report =
  disk_end :: "'g disk"
  ok_end :: nat
  nok_end :: nat
  printed :: string

definition notebook ::
  "('g, 'r) library \<Rightarrow> 'g disk \<Rightarrow> (nat \<Rightarrow> 'r) \<Rightarrow> 'g abort + 'g report" where
  "notebook L d rng =
     (case prepare L d of
        Inl (e, d') \<Rightarrow> Inl \<lparr>raised = e, disk_then = d', tally_then = None\<rparr>
      | Inr (d', p) \<Rightarrow>
     (case showInNetron L d' verified_model_filename of
        Some e \<Rightarrow> Inl \<lparr>raised = e, disk_then = d', tally_then = None\<rparr>
      | None \<Rightarrow>
     (case UNSW_NB15_quantized L of
        Inl e \<Rightarrow> Inl \<lparr>raised = e, disk_then = d', tally_then = None\<rparr>
      | Inr data \<Rightarrow>
     (case load_state_dict L of
        Inl e \<Rightarrow> Inl \<lparr>raised = e, disk_then = d', tally_then = None\<rparr>
      | Inr f \<Rightarrow>
     (case verify_loop L p (input_tensor data) (eval_mode \<lparr>training = True, net = f\<rparr>) rng
             [0..<n_verification_inputs] (0, 0) of
        Inl (e, t) \<Rightarrow> Inl \<lparr>raised = e, disk_then = d', tally_then = Some t\<rparr>
      | Inr t \<Rightarrow>
          Inr \<lparr>disk_end = d', ok_end = fst t, nok_end = snd t,
               printed = final_message (fst t)\<rparr>)))))"

section \<open>The specification's wording, for comparison\<close>

text \<open>
  The specification words the check as a comparison of the exported model's numeric output
  with the original network's output. This is that comparison, on the raw output of the
  forward pass; \<open>compare_outputs\<close> above is what the notebook does.
\<close>

definition spec_compare_outputs ::
  "('g, 'r) library \<Rightarrow> 'g prepared \<Rightarrow> 'r brevitas_model \<Rightarrow> 'r \<Rightarrow> tensor \<Rightarrow> nat \<times> nat
     \<Rightarrow> error + nat \<times> nat" where
  "spec_compare_outputs L p bm r current_inp t =
     (case forward bm r current_inp of Inl e \<Rightarrow> Inl e | Inr network_output \<Rightarrow>
      case inference_with_finn_onnx L p current_inp of Inl e \<Rightarrow> Inl e | Inr finn_output \<Rightarrow>
        Inr (fst t + (if finn_output = network_output then 1 else 0),
             snd t + (if finn_output \<noteq> network_output then 1 else 0)))"

text \<open>
  The specification's tally: "compute outputs via both the reference network and the
  normalized graph's execution engine, compare, and tally agreement". Sample \<open>i\<close> agrees
  when both paths return on it and their outputs compare equal.
\<close>

definition sample_agrees ::
  "('g, 'r) library \<Rightarrow> 'g prepared \<Rightarrow> real list list \<Rightarrow> 'r brevitas_model \<Rightarrow> (nat \<Rightarrow> 'r)
     \<Rightarrow> nat \<Rightarrow> bool" where
  "sample_agrees L p inp bm rng i =
     (case current_input inp i of Inl e \<Rightarrow> False | Inr x \<Rightarrow>
      case inference_with_brevitas L bm (rng i) x of Inl e \<Rightarrow> False | Inr y \<Rightarrow>
      case inference_with_finn_onnx L p x of Inl e \<Rightarrow> False | Inr z \<Rightarrow> z = y)"

text \<open>A list of passes applied in order, each to the result of the one before.\<close>

fun apply_passes ::
  "('g, 'r) library \<Rightarrow> transformation list \<Rightarrow> 'g ModelWrapper \<Rightarrow> error + 'g ModelWrapper" where
  "apply_passes L [] m = Inr m"
| "apply_passes L (t # ts) m =
     (case transform L t m of Inl e \<Rightarrow> Inl e | Inr m' \<Rightarrow> apply_passes L ts m')"

section \<open>A concrete run\<close>

text \<open>
  A small instance on which the notebook can be run by hand: the visualisation and the
  save return, every pass records its name in the graph, the execution engine answers +1,
  the network's raw output in evaluation mode is 2 (and the random number itself in
  training mode), and the data set has 100 rows of 593 ones followed by the label 0.

  The sigmoid of this instance is the mathematical one, which \<^verbatim>\<open>torch.sigmoid\<close> rounds
  to 32 bits; the instance applies it to 2 only, where both are about 0.88.
\<close>

definition real_sigmoid :: "real \<Rightarrow> real" where
  "real_sigmoid x = 1 / (1 + exp (- x))"

definition demo_model :: "transformation list ModelWrapper" where
  "demo_model =
     \<lparr>nodes = [], graph_input = [''global_in''], graph_output = [''global_out''],
      tensor_shapes = Map.empty(''global_in'' \<mapsto> [1, 600]),
      tensor_datatypes = Map.empty(''global_in'' \<mapsto> FLOAT32)\<rparr>"

definition demo_net :: "bool \<Rightarrow> real \<Rightarrow> tensor \<Rightarrow> error + real" where
  "demo_net train r x = Inr (if train then r else 2)"

definition demo_data :: "real list list" where
  "demo_data = replicate 100 (replicate 593 1 @ [0])"

definition demo_lib :: "(transformation list, real) library" where
  "demo_lib =
     \<lparr>showInNetron = (\<lambda>d path. None),
      transform = (\<lambda>t m. Inr (m\<lparr>nodes := nodes m @ [t]\<rparr>)),
      save_failure = (\<lambda>d path m. None),
      execute_onnx = (\<lambda>m d. Inr (Map.empty(''global_out'' \<mapsto> 1))),
      UNSW_NB15_quantized = Inr demo_data,
      load_state_dict = Inr demo_net,
      torch_sigmoid = real_sigmoid\<rparr>"

definition demo_disk :: "transformation list disk" where
  "demo_disk = Map.empty(''cybsec-mlp.onnx'' \<mapsto> demo_model)"

definition demo_tidy :: "transformation list ModelWrapper" where
  "demo_tidy =
     demo_model\<lparr>nodes := [InferShapes, FoldConstants, GiveUniqueNodeNames,
                            GiveReadableTensorNames, InferDataTypes, RemoveStaticGraphInputs]\<rparr>"

definition demo_prepared :: "transformation list prepared" where
  "demo_prepared =
     \<lparr>model_for_sim = set_tensor_datatype demo_tidy ''global_in'' BIPOLAR,
      finnonnx_in_tensor_name = ''global_in'',
      finnonnx_out_tensor_name = ''global_out'',
      finnonnx_model_in_shape = Some [1, 600]\<rparr>"

definition demo_brevitas :: "real brevitas_model" where
  "demo_brevitas = eval_mode \<lparr>training = True, net = demo_net\<rparr>"

definition demo_input :: tensor where
  "demo_input = \<lparr>shape = [1, 593], elems = replicate 593 1\<rparr>"

text \<open>The same library, except that its engine refuses every model but the prepared one.\<close>

definition demo_lib_strict :: "(transformation list, real) library" where
  "demo_lib_strict =
     demo_lib\<lparr>execute_onnx :=
       (\<lambda>m d. if nodes m = nodes demo_tidy \<and> tensor_datatypes m ''global_in'' = Some BIPOLAR
              then Inr (Map.empty(''global_out'' \<mapsto> 1))
              else Inl (LibraryError ''unknown model''))\<rparr>"

text \<open>
  An engine that answers the first entry of its input, and three samples: the first and
  the third begin with 1, the second with 0. On the first and the third the engine's +1
  equals the network's class decision, on the second its -1 does not.
\<close>

definition demo_lib_first :: "(transformation list, real) library" where
  "demo_lib_first =
     demo_lib\<lparr>execute_onnx :=
       (\<lambda>m d. case d ''global_in'' of
                None \<Rightarrow> Inl (KeyError ''global_in'')
              | Some t \<Rightarrow>
                  (case elems t of
                     [] \<Rightarrow> Inl ShapeError
                   | v # vs \<Rightarrow> Inr (Map.empty(''global_out'' \<mapsto> v))))\<rparr>"

definition demo_mixed_data :: "real list list" where
  "demo_mixed_data =
     [1 # replicate 592 1 @ [0], 0 # replicate 592 1 @ [1], 1 # replicate 592 1 @ [0]]"

text \<open>
  Runs that fail: an engine that raises, a pass that raises, a visualisation that raises
  on the verified file, a save that raises and leaves the disk as it was. The run on an
  empty disk fails as well.
\<close>

definition demo_lib_engine_raises :: "(transformation list, real) library" where
  "demo_lib_engine_raises =
     demo_lib\<lparr>execute_onnx := (\<lambda>m d. Inl (LibraryError ''shape mismatch''))\<rparr>"

definition demo_lib_pass_raises :: "(transformation list, real) library" where
  "demo_lib_pass_raises =
     demo_lib\<lparr>transform :=
       (\<lambda>t m. if t = GiveUniqueNodeNames then Inl (LibraryError ''pass failed'')
              else Inr (m\<lparr>nodes := nodes m @ [t]\<rparr>))\<rparr>"

definition demo_lib_netron_raises :: "(transformation list, real) library" where
  "demo_lib_netron_raises =
     demo_lib\<lparr>showInNetron :=
       (\<lambda>d path. if path = ''cybsec-mlp-verified.onnx'' then Some (LibraryError ''port in use'')
                 else None)\<rparr>"

definition demo_lib_save_raises :: "(transformation list, real) library" where
  "demo_lib_save_raises =
     demo_lib\<lparr>save_failure := (\<lambda>d path m. Some (LibraryError ''disk full'', d))\<rparr>"

section \<open>Helper facts\<close>

lemma real_sigmoid_gt_half: "(1 / 2 < real_sigmoid x) = (0 < x)"
proof -
  have pos: "0 < 1 + exp (- x)" by (simp add: add_pos_pos)
  have "(1 / 2 < 1 / (1 + exp (- x))) = (1 + exp (- x) < 2)"
    using pos by (simp add: field_simps)
  also have "\<dots> = (exp (- x) < 1)" by auto
  also have "\<dots> = (0 < x)" by simp
  finally show ?thesis by (simp add: real_sigmoid_def)
qed

lemma inference_with_brevitas_threshold:
  "inference_with_brevitas L bm r x =
     (case forward bm r x of Inl e \<Rightarrow> Inl e
      | Inr y \<Rightarrow> Inr (if 1 / 2 < torch_sigmoid L y then 1 else - 1))"
  by (simp add: inference_with_brevitas_def Let_def split: sum.splits)

lemma compare_outputs_Inr:
  assumes "inference_with_brevitas L bm r x = Inr y"
    and "inference_with_finn_onnx L p x = Inr z"
  shows "compare_outputs L p bm r x t =
           Inr (if z = y then (fst t + 1, snd t) else (fst t, snd t + 1))"
  using assms by (simp add: compare_outputs_def)

lemma compare_outputs_InrD:
  assumes "compare_outputs L p bm r x t = Inr t'"
  shows "\<exists>y z. inference_with_brevitas L bm r x = Inr y \<and>
           inference_with_finn_onnx L p x = Inr z \<and>
           t' = (if z = y then (fst t + 1, snd t) else (fst t, snd t + 1))"
  using assms unfolding compare_outputs_def
  by (auto split: sum.splits if_splits)

lemma verify_body_Inr:
  assumes "current_input inp i = Inr x"
    and "inference_with_brevitas L bm (rng i) x = Inr y"
    and "inference_with_finn_onnx L p x = Inr z"
  shows "verify_body L p inp bm rng i t =
           Inr (if z = y then (fst t + 1, snd t) else (fst t, snd t + 1))"
  using assms by (simp add: verify_body_def compare_outputs_Inr)

lemma verify_body_InrD:
  assumes "verify_body L p inp bm rng i t = Inr t'"
  shows "\<exists>x y z. current_input inp i = Inr x \<and>
           inference_with_brevitas L bm (rng i) x = Inr y \<and>
           inference_with_finn_onnx L p x = Inr z \<and>
           t' = (if z = y then (fst t + 1, snd t) else (fst t, snd t + 1))"
proof (cases "current_input inp i")
  case (Inl e)
  with assms show ?thesis by (simp add: verify_body_def)
next
  case (Inr x)
  with assms have "compare_outputs L p bm (rng i) x t = Inr t'"
    by (simp add: verify_body_def)
  from compare_outputs_InrD[OF this] Inr show ?thesis by blast
qed

lemma verify_body_agrees:
  assumes "verify_body L p inp bm rng i t = Inr t'"
  shows "t' = (if sample_agrees L p inp bm rng i then (fst t + 1, snd t)
               else (fst t, snd t + 1))"
proof -
  from verify_body_InrD[OF assms] obtain x y z where
    h: "current_input inp i = Inr x" "inference_with_brevitas L bm (rng i) x = Inr y"
      "inference_with_finn_onnx L p x = Inr z"
    and t: "t' = (if z = y then (fst t + 1, snd t) else (fst t, snd t + 1))"
    by blast
  from h have "sample_agrees L p inp bm rng i = (z = y)"
    by (simp add: sample_agrees_def)
  with t show ?thesis by simp
qed

lemma verify_loop_counts:
  "verify_loop L p inp bm rng ks t = Inr t' \<Longrightarrow>
   fst t' = fst t + length (filter (sample_agrees L p inp bm rng) ks) \<and>
   snd t' = snd t + length (filter (\<lambda>i. \<not> sample_agrees L p inp bm rng i) ks)"
proof (induction ks arbitrary: t)
  case Nil
  then show ?case by simp
next
  case (Cons k ks)
  from Cons.prems obtain t1 where b: "verify_body L p inp bm rng k t = Inr t1"
    and l: "verify_loop L p inp bm rng ks t1 = Inr t'"
    by (auto split: sum.splits)
  from verify_body_agrees[OF b] Cons.IH[OF l] show ?case
    by (simp split: if_splits)
qed

lemma verify_loop_sum:
  assumes "verify_loop L p inp bm rng ks t = Inr t'"
  shows "fst t' + snd t' = fst t + snd t + length ks"
proof -
  have "length (filter (sample_agrees L p inp bm rng) ks) +
      length (filter (\<lambda>i. \<not> sample_agrees L p inp bm rng i) ks) = length ks"
    by (rule sum_length_filter_compl)
  with verify_loop_counts[OF assms] show ?thesis by simp
qed

lemma verify_loop_append:
  "verify_loop L p inp bm rng (xs @ ys) t =
     (case verify_loop L p inp bm rng xs t of
        Inl a \<Rightarrow> Inl a
      | Inr t' \<Rightarrow> verify_loop L p inp bm rng ys t')"
  by (induction xs arbitrary: t) (auto split: sum.splits)

lemma notebook_InrD:
  assumes "notebook L d rng = Inr rep"
  shows "\<exists>d' p data f.
           prepare L d = Inr (d', p) \<and> UNSW_NB15_quantized L = Inr data \<and>
           load_state_dict L = Inr f \<and>
           verify_loop L p (input_tensor data) (eval_mode \<lparr>training = True, net = f\<rparr>) rng
             [0..<n_verification_inputs] (0, 0) = Inr (ok_end rep, nok_end rep) \<and>
           disk_end rep = d' \<and> printed rep = final_message (ok_end rep)"
  using assms unfolding notebook_def
  by (auto split: sum.splits prod.splits option.splits)

subsection \<open>The concrete run, evaluated\<close>

lemma demo_tidy_up: "tidy_up demo_lib demo_model = Inr demo_tidy"
  by (simp add: tidy_up_def demo_lib_def demo_model_def demo_tidy_def)

lemma demo_mark_input: "mark_input demo_tidy = Inr demo_prepared"
  by (simp add: mark_input_def demo_tidy_def demo_model_def demo_prepared_def
      get_tensor_shape_def)

text \<open>The preparation of every library that differs from the concrete one elsewhere.\<close>

lemma demo_variant_prepare:
  assumes "showInNetron L demo_disk model_file_path = None"
    and "transform L = transform demo_lib"
    and "save_failure L demo_disk verified_model_filename (model_for_sim demo_prepared) = None"
  shows "prepare L demo_disk =
     Inr (demo_disk(''cybsec-mlp-verified.onnx'' \<mapsto> model_for_sim demo_prepared), demo_prepared)"
proof -
  have l: "load_model demo_disk model_file_path = Inr demo_model"
    by (simp add: load_model_def demo_disk_def model_file_path_def)
  have t: "tidy_up L demo_model = Inr demo_tidy"
    unfolding tidy_up_def assms(2) by (rule demo_tidy_up[unfolded tidy_up_def])
  have s: "save L demo_disk verified_model_filename (model_for_sim demo_prepared) =
      Inr (demo_disk(''cybsec-mlp-verified.onnx'' \<mapsto> model_for_sim demo_prepared))"
    unfolding save_def assms(3) by (simp add: verified_model_filename_def)
  show ?thesis
    by (simp add: prepare_def l assms(1) t demo_mark_input s)
qed

lemma demo_prepare:
  "prepare demo_lib demo_disk =
     Inr (demo_disk(''cybsec-mlp-verified.onnx'' \<mapsto> model_for_sim demo_prepared), demo_prepared)"
  by (rule demo_variant_prepare) (simp_all add: demo_lib_def)

lemma demo_current_input:
  "i < 100 \<Longrightarrow> current_input (input_tensor demo_data) i = Inr demo_input"
  by (simp add: current_input_def input_tensor_def demo_data_def n_verification_inputs_def
      reshape_def demo_input_def)

lemma demo_forward: "forward demo_brevitas r x = Inr 2"
  by (simp add: forward_def demo_brevitas_def eval_mode_def demo_net_def)

lemma demo_variant_brevitas_output:
  assumes "torch_sigmoid L = real_sigmoid"
  shows "inference_with_brevitas L demo_brevitas r x = Inr 1"
proof -
  have "1 / 2 < torch_sigmoid L 2"
    unfolding assms real_sigmoid_gt_half by simp
  then show ?thesis
    by (simp add: inference_with_brevitas_threshold demo_forward)
qed

lemma demo_brevitas_output: "inference_with_brevitas demo_lib demo_brevitas r x = Inr 1"
  by (rule demo_variant_brevitas_output) (simp add: demo_lib_def)

lemma demo_finn_output: "inference_with_finn_onnx demo_lib demo_prepared demo_input = Inr 1"
  by (simp add: inference_with_finn_onnx_def np_pad_def rows_of_def reshape_def demo_lib_def
      demo_prepared_def demo_input_def)

lemma demo_compare:
  "compare_outputs demo_lib demo_prepared demo_brevitas r demo_input (a, b) = Inr (a + 1, b)"
  by (simp add: compare_outputs_def demo_brevitas_output demo_finn_output)

lemma demo_body:
  "i < 100 \<Longrightarrow>
   verify_body demo_lib demo_prepared (input_tensor demo_data) demo_brevitas rng i (a, b) =
     Inr (a + 1, b)"
  by (simp add: verify_body_def demo_current_input demo_compare)

lemma demo_loop:
  "\<forall>i \<in> set is. i < 100 \<Longrightarrow>
   verify_loop demo_lib demo_prepared (input_tensor demo_data) demo_brevitas rng is (a, b) =
     Inr (a + length is, b)"
  by (induction "is" arbitrary: a) (simp_all add: demo_body)

lemma demo_notebook:
  "notebook demo_lib demo_disk rng =
     Inr \<lparr>disk_end = demo_disk(''cybsec-mlp-verified.onnx'' \<mapsto> model_for_sim demo_prepared),
          ok_end = 100, nok_end = 0, printed = msg_succeeded\<rparr>"
proof -
  have "verify_loop demo_lib demo_prepared (input_tensor demo_data) demo_brevitas rng
          [0..<n_verification_inputs] (0, 0) = Inr (100, 0)"
    using demo_loop[of "[0..<n_verification_inputs]" rng 0 0]
    by (simp add: n_verification_inputs_def)
  moreover have "UNSW_NB15_quantized demo_lib = Inr demo_data"
    and "load_state_dict demo_lib = Inr demo_net"
    and "showInNetron demo_lib = (\<lambda>d path. None)"
    by (simp_all add: demo_lib_def)
  ultimately show ?thesis
    by (simp add: notebook_def demo_prepare demo_brevitas_def[symmetric] final_message_def
        n_verification_inputs_def)
qed

subsection \<open>The three mixed samples, evaluated\<close>

lemma demo_mixed_current_input:
  "current_input (input_tensor demo_mixed_data) 0 =
     Inr \<lparr>shape = [1, 593], elems = 1 # replicate 592 1\<rparr>"
  "current_input (input_tensor demo_mixed_data) 1 =
     Inr \<lparr>shape = [1, 593], elems = 0 # replicate 592 1\<rparr>"
  "current_input (input_tensor demo_mixed_data) 2 =
     Inr \<lparr>shape = [1, 593], elems = 1 # replicate 592 1\<rparr>"
  by (simp_all add: current_input_def input_tensor_def demo_mixed_data_def
      n_verification_inputs_def reshape_def)

lemma demo_first_finn_output:
  "inference_with_finn_onnx demo_lib_first demo_prepared
     \<lparr>shape = [1, 593], elems = v # replicate 592 1\<rparr> = Inr (2 * v - 1)"
  by (simp add: inference_with_finn_onnx_def np_pad_def rows_of_def reshape_def
      demo_lib_first_def demo_lib_def demo_prepared_def)

lemma demo_first_brevitas_output:
  "inference_with_brevitas demo_lib_first demo_brevitas r x = Inr 1"
  by (rule demo_variant_brevitas_output) (simp add: demo_lib_first_def demo_lib_def)

lemma demo_mixed_body:
  "verify_body demo_lib_first demo_prepared (input_tensor demo_mixed_data) demo_brevitas rng 0 t =
     Inr (fst t + 1, snd t)"
  "verify_body demo_lib_first demo_prepared (input_tensor demo_mixed_data) demo_brevitas rng 1 t =
     Inr (fst t, snd t + 1)"
  "verify_body demo_lib_first demo_prepared (input_tensor demo_mixed_data) demo_brevitas rng 2 t =
     Inr (fst t + 1, snd t)"
  using verify_body_Inr[OF demo_mixed_current_input(1) demo_first_brevitas_output
      demo_first_finn_output, of rng t]
    verify_body_Inr[OF demo_mixed_current_input(2) demo_first_brevitas_output
      demo_first_finn_output, of rng t]
    verify_body_Inr[OF demo_mixed_current_input(3) demo_first_brevitas_output
      demo_first_finn_output, of rng t]
  by simp_all

lemma demo_mixed_loop:
  "verify_loop demo_lib_first demo_prepared (input_tensor demo_mixed_data) demo_brevitas rng
     [0, 1, 2] (0, 0) = Inr (2, 1)"
  unfolding verify_loop.simps demo_mixed_body sum.case
  by simp

lemma demo_mixed_agrees:
  "sample_agrees demo_lib_first demo_prepared (input_tensor demo_mixed_data) demo_brevitas rng 0"
  "\<not> sample_agrees demo_lib_first demo_prepared (input_tensor demo_mixed_data) demo_brevitas rng 1"
  "sample_agrees demo_lib_first demo_prepared (input_tensor demo_mixed_data) demo_brevitas rng 2"
  unfolding sample_agrees_def demo_mixed_current_input demo_first_brevitas_output
    demo_first_finn_output sum.case
  by simp_all

section \<open>The comparison of the two outputs\<close>

text \<open>
  C1, as stated: a sample is counted in \<open>ok\<close> exactly when the output of the execution
  engine equals the output of the original network. At the concrete run this fails: the
  network's output is 2, the engine's output is 1, and the notebook counts the sample in
  \<open>ok\<close>, where the comparison of the two numeric outputs counts it in \<open>nok\<close>.
\<close>

theorem raw_output_comparison_counterexample:
  "forward demo_brevitas 0 demo_input = Inr 2 \<and>
   inference_with_finn_onnx demo_lib demo_prepared demo_input = Inr 1 \<and>
   compare_outputs demo_lib demo_prepared demo_brevitas 0 demo_input (0, 0) = Inr (1, 0) \<and>
   spec_compare_outputs demo_lib demo_prepared demo_brevitas 0 demo_input (0, 0) = Inr (0, 1)"
  by (simp add: demo_forward demo_finn_output demo_compare[of 0 0 0, simplified]
      spec_compare_outputs_def)

text \<open>
  C1, amended: for every sample on which both paths return, the notebook counts the sample
  in \<open>ok\<close> exactly when the engine's output equals the class decision taken from the
  network's output \<open>y\<close>, which is +1 when \<^verbatim>\<open>torch.sigmoid(y) > 0.5\<close> and -1 otherwise;
  in every other case it counts the sample in \<open>nok\<close>.
\<close>

theorem agreement_on_class_decision:
  assumes "current_input inp i = Inr x"
    and "forward bm (rng i) x = Inr y"
    and "inference_with_finn_onnx L p x = Inr z"
  shows "verify_body L p inp bm rng i (ok, nok) =
           Inr (if z = (if 1 / 2 < torch_sigmoid L y then 1 else - 1) then (ok + 1, nok)
                else (ok, nok + 1))"
  using assms
  by (simp add: verify_body_def compare_outputs_def inference_with_brevitas_threshold)

theorem agreement_on_class_decision_witness:
  "current_input (input_tensor demo_data) 0 = Inr demo_input \<and>
   forward demo_brevitas 0 demo_input = Inr 2 \<and>
   inference_with_finn_onnx demo_lib demo_prepared demo_input = Inr 1 \<and>
   1 / 2 < torch_sigmoid demo_lib 2 \<and>
   verify_body demo_lib demo_prepared (input_tensor demo_data) demo_brevitas (\<lambda>i. 0) 0 (0, 0) =
     Inr (1, 0) \<and>
   current_input (input_tensor demo_mixed_data) 1 =
     Inr \<lparr>shape = [1, 593], elems = 0 # replicate 592 1\<rparr> \<and>
   forward demo_brevitas 0 \<lparr>shape = [1, 593], elems = 0 # replicate 592 1\<rparr> = Inr 2 \<and>
   inference_with_finn_onnx demo_lib_first demo_prepared
     \<lparr>shape = [1, 593], elems = 0 # replicate 592 1\<rparr> = Inr (- 1) \<and>
   1 / 2 < torch_sigmoid demo_lib_first 2 \<and>
   verify_body demo_lib_first demo_prepared (input_tensor demo_mixed_data) demo_brevitas
     (\<lambda>i. 0) 1 (0, 0) = Inr (0, 1)"
proof -
  have a: "current_input (input_tensor demo_data) 0 = Inr demo_input"
    by (simp add: demo_current_input)
  have b: "forward demo_brevitas ((\<lambda>i. 0) (0::nat)) demo_input = Inr 2"
    by (simp add: demo_forward)
  have c: "inference_with_finn_onnx demo_lib demo_prepared demo_input = Inr 1"
    by (rule demo_finn_output)
  have e: "torch_sigmoid demo_lib = real_sigmoid"
    by (simp add: demo_lib_def)
  have s: "1 / 2 < torch_sigmoid demo_lib 2"
    unfolding e real_sigmoid_gt_half by simp
  have b': "forward demo_brevitas ((\<lambda>i. 0) (1::nat))
      \<lparr>shape = [1, 593], elems = 0 # replicate 592 1\<rparr> = Inr 2"
    by (simp add: demo_forward)
  have c': "inference_with_finn_onnx demo_lib_first demo_prepared
      \<lparr>shape = [1, 593], elems = 0 # replicate 592 1\<rparr> = Inr (- 1)"
    using demo_first_finn_output[of 0] by simp
  have e': "torch_sigmoid demo_lib_first = real_sigmoid"
    by (simp add: demo_lib_first_def demo_lib_def)
  have s': "1 / 2 < torch_sigmoid demo_lib_first 2"
    unfolding e' real_sigmoid_gt_half by simp
  note T = agreement_on_class_decision[OF a b c, of 0 0]
  note T' = agreement_on_class_decision[OF demo_mixed_current_input(2) b' c', of 0 0]
  from T s have 1: "verify_body demo_lib demo_prepared (input_tensor demo_data) demo_brevitas
      (\<lambda>i. 0) 0 (0, 0) = Inr (1, 0)"
    by simp
  from T' s' have 2: "verify_body demo_lib_first demo_prepared (input_tensor demo_mixed_data)
      demo_brevitas (\<lambda>i. 0) 1 (0, 0) = Inr (0, 1)"
    by simp
  from a b c s 1 demo_mixed_current_input(2) b' c' s' 2 show ?thesis
    by simp
qed

section \<open>The tally and the verdict\<close>

text \<open>
  C3: the counters start at 0. An iteration on which both paths return adds exactly 1 to
  \<open>ok\<close> and nothing to \<open>nok\<close> when the two outputs compare equal, and exactly 1 to
  \<open>nok\<close> and nothing to \<open>ok\<close> when they compare unequal; an iteration completes in
  no other way. So after the loop has processed a list of samples, \<open>ok\<close> is the number
  of samples that agree, \<open>nok\<close> the number of those that do not, and \<open>ok + nok\<close> the
  number of samples; after the full loop \<open>ok + nok = n_verification_inputs\<close>.
\<close>

theorem tally_invariant:
  "(current_input inp i = Inr x \<and> inference_with_brevitas L bm (rng i) x = Inr y \<and>
    inference_with_finn_onnx L p x = Inr z \<longrightarrow>
      verify_body L p inp bm rng i (ok, nok) =
        Inr (if z = y then (ok + 1, nok) else (ok, nok + 1))) \<and>
   (verify_body L p inp bm rng i (ok, nok) = Inr t' \<longrightarrow>
      (\<exists>x y z. current_input inp i = Inr x \<and> inference_with_brevitas L bm (rng i) x = Inr y \<and>
         inference_with_finn_onnx L p x = Inr z \<and>
         t' = (if z = y then (ok + 1, nok) else (ok, nok + 1)))) \<and>
   (verify_loop L p inp bm rng ks (0, 0) = Inr (ok', nok') \<longrightarrow>
      ok' = length (filter (sample_agrees L p inp bm rng) ks) \<and>
      nok' = length (filter (\<lambda>k. \<not> sample_agrees L p inp bm rng k) ks) \<and>
      ok' + nok' = length ks) \<and>
   (notebook L d rng = Inr rep \<longrightarrow>
      ok_end rep + nok_end rep = n_verification_inputs \<and>
      (\<exists>d' q data f.
         prepare L d = Inr (d', q) \<and> UNSW_NB15_quantized L = Inr data \<and>
         load_state_dict L = Inr f \<and>
         ok_end rep =
           length (filter (sample_agrees L q (input_tensor data)
                     (eval_mode \<lparr>training = True, net = f\<rparr>) rng)
                   [0..<n_verification_inputs]) \<and>
         nok_end rep =
           length (filter (\<lambda>k. \<not> sample_agrees L q (input_tensor data)
                     (eval_mode \<lparr>training = True, net = f\<rparr>) rng k)
                   [0..<n_verification_inputs])))"
proof (intro conjI impI)
  assume "current_input inp i = Inr x \<and> inference_with_brevitas L bm (rng i) x = Inr y \<and>
    inference_with_finn_onnx L p x = Inr z"
  then show "verify_body L p inp bm rng i (ok, nok) =
      Inr (if z = y then (ok + 1, nok) else (ok, nok + 1))"
    using verify_body_Inr[of inp i x L bm rng y p z "(ok, nok)"] by simp
next
  assume "verify_body L p inp bm rng i (ok, nok) = Inr t'"
  from verify_body_InrD[OF this]
  show "\<exists>x y z. current_input inp i = Inr x \<and> inference_with_brevitas L bm (rng i) x = Inr y \<and>
         inference_with_finn_onnx L p x = Inr z \<and>
         t' = (if z = y then (ok + 1, nok) else (ok, nok + 1))"
    unfolding fst_conv snd_conv .
next
  assume l: "verify_loop L p inp bm rng ks (0, 0) = Inr (ok', nok')"
  from verify_loop_counts[OF l]
  show "ok' = length (filter (sample_agrees L p inp bm rng) ks)"
    and "nok' = length (filter (\<lambda>k. \<not> sample_agrees L p inp bm rng k) ks)"
    by simp_all
  from verify_loop_sum[OF l] show "ok' + nok' = length ks"
    by simp
next
  assume "notebook L d rng = Inr rep"
  from notebook_InrD[OF this] obtain d' q data f where
    h: "prepare L d = Inr (d', q)" "UNSW_NB15_quantized L = Inr data"
      "load_state_dict L = Inr f"
    and l: "verify_loop L q (input_tensor data) (eval_mode \<lparr>training = True, net = f\<rparr>) rng
       [0..<n_verification_inputs] (0, 0) = Inr (ok_end rep, nok_end rep)"
    by blast
  from verify_loop_sum[OF l] show "ok_end rep + nok_end rep = n_verification_inputs"
    by simp
  from verify_loop_counts[OF l] h
  show "\<exists>d' q data f.
         prepare L d = Inr (d', q) \<and> UNSW_NB15_quantized L = Inr data \<and>
         load_state_dict L = Inr f \<and>
         ok_end rep =
           length (filter (sample_agrees L q (input_tensor data)
                     (eval_mode \<lparr>training = True, net = f\<rparr>) rng)
                   [0..<n_verification_inputs]) \<and>
         nok_end rep =
           length (filter (\<lambda>k. \<not> sample_agrees L q (input_tensor data)
                     (eval_mode \<lparr>training = True, net = f\<rparr>) rng k)
                   [0..<n_verification_inputs])"
    by auto
qed

theorem tally_invariant_witness:
  "current_input (input_tensor demo_mixed_data) 1 =
     Inr \<lparr>shape = [1, 593], elems = 0 # replicate 592 1\<rparr> \<and>
   inference_with_brevitas demo_lib_first demo_brevitas 0
     \<lparr>shape = [1, 593], elems = 0 # replicate 592 1\<rparr> = Inr 1 \<and>
   inference_with_finn_onnx demo_lib_first demo_prepared
     \<lparr>shape = [1, 593], elems = 0 # replicate 592 1\<rparr> = Inr (- 1) \<and>
   verify_body demo_lib_first demo_prepared (input_tensor demo_mixed_data) demo_brevitas
     (\<lambda>i. 0) 1 (3, 4) = Inr (3, 5) \<and>
   verify_body demo_lib_first demo_prepared (input_tensor demo_mixed_data) demo_brevitas
     (\<lambda>i. 0) 0 (3, 4) = Inr (4, 4) \<and>
   verify_loop demo_lib_first demo_prepared (input_tensor demo_mixed_data) demo_brevitas
     (\<lambda>i. 0) [0, 1, 2] (0, 0) = Inr (2, 1) \<and>
   length (filter (sample_agrees demo_lib_first demo_prepared (input_tensor demo_mixed_data)
                     demo_brevitas (\<lambda>i. 0)) [0, 1, 2]) = 2 \<and>
   (\<exists>rep. notebook demo_lib demo_disk (\<lambda>i. 0) = Inr rep \<and>
      ok_end rep + nok_end rep = n_verification_inputs)"
proof -
  have c: "inference_with_finn_onnx demo_lib_first demo_prepared
      \<lparr>shape = [1, 593], elems = 0 # replicate 592 1\<rparr> = Inr (- 1)"
    using demo_first_finn_output[of 0] by simp
  note b = demo_first_brevitas_output[of 0 "\<lparr>shape = [1, 593], elems = 0 # replicate 592 1\<rparr>"]
  note T = tally_invariant[where inp = "input_tensor demo_mixed_data" and i = 1
      and x = "\<lparr>shape = [1, 593], elems = 0 # replicate 592 1\<rparr>" and L = demo_lib_first
      and bm = demo_brevitas and rng = "\<lambda>i. 0" and y = 1 and p = demo_prepared and z = "- 1"
      and ok = 3 and nok = 4 and t' = "(3, 5)" and ks = "[0, 1, 2]" and ok' = 2 and nok' = 1]
  note N = tally_invariant[where L = demo_lib and d = demo_disk and rng = "\<lambda>i. 0"
      and rep = "\<lparr>disk_end = demo_disk(''cybsec-mlp-verified.onnx'' \<mapsto> model_for_sim demo_prepared),
          ok_end = 100, nok_end = 0, printed = msg_succeeded\<rparr>",
      THEN conjunct2, THEN conjunct2, THEN conjunct2]
  from T[THEN conjunct1] demo_mixed_current_input(2) b c
  have "verify_body demo_lib_first demo_prepared (input_tensor demo_mixed_data) demo_brevitas
     (\<lambda>i. 0) 1 (3, 4) = Inr (if (- 1 :: real) = 1 then (3 + 1, 4) else (3, 4 + 1))"
    by blast
  then have 1: "verify_body demo_lib_first demo_prepared (input_tensor demo_mixed_data)
     demo_brevitas (\<lambda>i. 0) 1 (3, 4) = Inr (3, 5)"
    by simp
  from T[THEN conjunct2, THEN conjunct2, THEN conjunct1] demo_mixed_loop[of "\<lambda>i. 0"]
  have "2 = length (filter (sample_agrees demo_lib_first demo_prepared
      (input_tensor demo_mixed_data) demo_brevitas (\<lambda>i. 0)) [0, 1, 2])"
    by blast
  then have 2: "length (filter (sample_agrees demo_lib_first demo_prepared
      (input_tensor demo_mixed_data) demo_brevitas (\<lambda>i. 0)) [0, 1, 2]) = 2"
    by (rule sym)
  have 3: "verify_body demo_lib_first demo_prepared (input_tensor demo_mixed_data) demo_brevitas
     (\<lambda>i. 0) 0 (3, 4) = Inr (4, 4)"
    using demo_mixed_body(1)[of "\<lambda>i. 0" "(3, 4)"] by simp
  from N demo_notebook[of "\<lambda>i. 0"]
  have 4: "\<exists>rep. notebook demo_lib demo_disk (\<lambda>i. 0) = Inr rep \<and>
      ok_end rep + nok_end rep = n_verification_inputs"
    by blast
  from demo_mixed_current_input(2) b c 1 2 3 4 demo_mixed_loop[of "\<lambda>i. 0"]
  show ?thesis
    by blast
qed

text \<open>
  C2: the verdict printed after the loop is the success message if and only if \<open>ok\<close>
  equals \<open>n_verification_inputs\<close>, and the failure message otherwise; a run that reaches
  the last cell prints the verdict for the final value of \<open>ok\<close>.
\<close>

theorem final_verdict:
  "(final_message ok =
      ''Verification succeeded. Brevitas and FINN-ONNX execution outputs are identical'')
     = (ok = n_verification_inputs) \<and>
   (final_message ok =
      ''Verification failed. Brevitas and FINN-ONNX execution outputs are NOT identical'')
     = (ok \<noteq> n_verification_inputs) \<and>
   (notebook L d rng = Inr rep \<longrightarrow> printed rep = final_message (ok_end rep))"
proof (intro conjI impI)
  assume "notebook L d rng = Inr rep"
  from notebook_InrD[OF this] show "printed rep = final_message (ok_end rep)"
    by blast
qed (simp_all add: final_message_def msg_succeeded_def msg_failed_def)

theorem final_verdict_witness:
  "notebook demo_lib demo_disk (\<lambda>i. 0) =
     Inr \<lparr>disk_end = demo_disk(''cybsec-mlp-verified.onnx'' \<mapsto> model_for_sim demo_prepared),
          ok_end = 100, nok_end = 0, printed = msg_succeeded\<rparr> \<and>
   final_message 100 =
     ''Verification succeeded. Brevitas and FINN-ONNX execution outputs are identical'' \<and>
   final_message 99 =
     ''Verification failed. Brevitas and FINN-ONNX execution outputs are NOT identical''"
  using final_verdict[of 100 demo_lib demo_disk "\<lambda>i. 0"
      "\<lparr>disk_end = demo_disk(''cybsec-mlp-verified.onnx'' \<mapsto> model_for_sim demo_prepared),
          ok_end = 100, nok_end = 0, printed = msg_succeeded\<rparr>"]
    final_verdict[of 99 demo_lib demo_disk "\<lambda>i. 0"
      "\<lparr>disk_end = demo_disk(''cybsec-mlp-verified.onnx'' \<mapsto> model_for_sim demo_prepared),
          ok_end = 100, nok_end = 0, printed = msg_succeeded\<rparr>"]
  by (simp add: demo_notebook n_verification_inputs_def)

section \<open>Preparing the model: tidy-up, marking, saving\<close>

lemma tidy_up_apply_passes:
  "tidy_up L m =
     apply_passes L [InferShapes, FoldConstants, GiveUniqueNodeNames, GiveReadableTensorNames,
                     InferDataTypes, RemoveStaticGraphInputs] m"
  by (simp add: tidy_up_def split: sum.splits)

lemma get_set_tensor_datatype:
  "get_tensor_datatype (set_tensor_datatype m name dt) name = dt"
  by (simp add: get_tensor_datatype_def set_tensor_datatype_def)

lemma graph_input_set_tensor_datatype:
  "graph_input (set_tensor_datatype m name dt) = graph_input m"
  by (simp add: set_tensor_datatype_def)

lemma mark_input_InrD:
  assumes "mark_input m = Inr p"
  shows "\<exists>rest. graph_input m = finnonnx_in_tensor_name p # rest"
    and "\<exists>rest. graph_output m = finnonnx_out_tensor_name p # rest"
    and "model_for_sim p = set_tensor_datatype m (finnonnx_in_tensor_name p) BIPOLAR"
    and "finnonnx_model_in_shape p = get_tensor_shape m (finnonnx_in_tensor_name p)"
  using assms unfolding mark_input_def
  by (auto split: list.splits)

lemma prepare_InrD:
  assumes "prepare L d = Inr (d', p)"
  shows "\<exists>m0 m. d model_file_path = Some m0 \<and> tidy_up L m0 = Inr m \<and> mark_input m = Inr p"
    and "d' = d(verified_model_filename \<mapsto> model_for_sim p)"
  using assms unfolding prepare_def load_model_def save_def
  by (auto split: sum.splits option.splits prod.splits)

text \<open>
  C4: the tidy-up applies the library's transformations InferShapes, FoldConstants,
  GiveUniqueNodeNames, GiveReadableTensorNames, InferDataTypes and RemoveStaticGraphInputs,
  six passes in this order, each to the result of the one before.
\<close>

theorem tidy_up_pipeline:
  "tidy_up L m =
     apply_passes L [InferShapes, FoldConstants, GiveUniqueNodeNames, GiveReadableTensorNames,
                     InferDataTypes, RemoveStaticGraphInputs] m \<and>
   length [InferShapes, FoldConstants, GiveUniqueNodeNames, GiveReadableTensorNames,
           InferDataTypes, RemoveStaticGraphInputs] = 6 \<and>
   ((\<forall>t m'. transform L t m' = Inr (f t m')) \<longrightarrow>
      tidy_up L m =
        Inr (f RemoveStaticGraphInputs (f InferDataTypes (f GiveReadableTensorNames
              (f GiveUniqueNodeNames (f FoldConstants (f InferShapes m)))))))"
proof (intro conjI impI)
  show "tidy_up L m =
     apply_passes L [InferShapes, FoldConstants, GiveUniqueNodeNames, GiveReadableTensorNames,
                     InferDataTypes, RemoveStaticGraphInputs] m"
    by (rule tidy_up_apply_passes)
next
  assume "\<forall>t m'. transform L t m' = Inr (f t m')"
  then show "tidy_up L m =
        Inr (f RemoveStaticGraphInputs (f InferDataTypes (f GiveReadableTensorNames
              (f GiveUniqueNodeNames (f FoldConstants (f InferShapes m))))))"
    by (simp add: tidy_up_def)
qed simp

theorem tidy_up_pipeline_witness:
  "(\<forall>t m'. transform demo_lib t m' = Inr (m'\<lparr>nodes := nodes m' @ [t]\<rparr>)) \<and>
   tidy_up demo_lib demo_model =
     Inr (demo_model\<lparr>nodes := [InferShapes, FoldConstants, GiveUniqueNodeNames,
                                 GiveReadableTensorNames, InferDataTypes,
                                 RemoveStaticGraphInputs]\<rparr>)"
proof -
  have h: "\<forall>t m'. transform demo_lib t m' = Inr (m'\<lparr>nodes := nodes m' @ [t]\<rparr>)"
    by (simp add: demo_lib_def)
  from tidy_up_pipeline[of demo_lib demo_model "\<lambda>t m'. m'\<lparr>nodes := nodes m' @ [t]\<rparr>"] h
  show ?thesis
    by (simp add: demo_model_def)
qed

text \<open>
  C5: marking stores BIPOLAR for the tensor named by the graph's first input, so reading
  that tensor's datatype right after the marking gives BIPOLAR; this holds for the model
  that the preparation (load, tidy-up, marking) leaves in \<open>model_for_sim\<close>.
\<close>

theorem input_marked_bipolar:
  "get_tensor_datatype (set_tensor_datatype m name BIPOLAR) name = BIPOLAR \<and>
   (mark_input m = Inr p \<longrightarrow>
      (\<exists>rest. graph_input m = finnonnx_in_tensor_name p # rest) \<and>
      model_for_sim p = set_tensor_datatype m (finnonnx_in_tensor_name p) BIPOLAR \<and>
      get_tensor_datatype (model_for_sim p) (finnonnx_in_tensor_name p) = BIPOLAR) \<and>
   (prepare L d = Inr (d', q) \<longrightarrow>
      (\<exists>rest. graph_input (model_for_sim q) = finnonnx_in_tensor_name q # rest) \<and>
      get_tensor_datatype (model_for_sim q) (finnonnx_in_tensor_name q) = BIPOLAR)"
proof (intro conjI impI)
  show "get_tensor_datatype (set_tensor_datatype m name BIPOLAR) name = BIPOLAR"
    by (rule get_set_tensor_datatype)
next
  assume a: "mark_input m = Inr p"
  show "\<exists>rest. graph_input m = finnonnx_in_tensor_name p # rest"
    by (rule mark_input_InrD(1)[OF a])
  show "model_for_sim p = set_tensor_datatype m (finnonnx_in_tensor_name p) BIPOLAR"
    by (rule mark_input_InrD(3)[OF a])
  then show "get_tensor_datatype (model_for_sim p) (finnonnx_in_tensor_name p) = BIPOLAR"
    by (simp add: get_set_tensor_datatype)
next
  assume "prepare L d = Inr (d', q)"
  from prepare_InrD(1)[OF this] obtain m1 where a: "mark_input m1 = Inr q"
    by blast
  from mark_input_InrD(1)[OF a] mark_input_InrD(3)[OF a]
  show "\<exists>rest. graph_input (model_for_sim q) = finnonnx_in_tensor_name q # rest"
    by (simp add: graph_input_set_tensor_datatype)
  from mark_input_InrD(3)[OF a]
  show "get_tensor_datatype (model_for_sim q) (finnonnx_in_tensor_name q) = BIPOLAR"
    by (simp add: get_set_tensor_datatype)
qed

theorem input_marked_bipolar_witness:
  "get_tensor_datatype demo_tidy ''global_in'' = FLOAT32 \<and>
   mark_input demo_tidy = Inr demo_prepared \<and>
   prepare demo_lib demo_disk =
     Inr (demo_disk(''cybsec-mlp-verified.onnx'' \<mapsto> model_for_sim demo_prepared), demo_prepared) \<and>
   finnonnx_in_tensor_name demo_prepared = ''global_in'' \<and>
   get_tensor_datatype (model_for_sim demo_prepared) ''global_in'' = BIPOLAR"
proof -
  have n: "finnonnx_in_tensor_name demo_prepared = ''global_in''"
    by (simp add: demo_prepared_def)
  have f: "get_tensor_datatype demo_tidy ''global_in'' = FLOAT32"
    by (simp add: get_tensor_datatype_def demo_tidy_def demo_model_def)
  from input_marked_bipolar[of demo_tidy "''global_in''" demo_prepared demo_lib demo_disk
      "demo_disk(''cybsec-mlp-verified.onnx'' \<mapsto> model_for_sim demo_prepared)" demo_prepared]
    demo_mark_input demo_prepare n f
  show ?thesis by simp
qed

text \<open>
  C6: a preparation that succeeds has read the model stored under \<^verbatim>\<open>cybsec-mlp.onnx\<close>,
  has tidied and marked it, and has written the result under
  \<^verbatim>\<open>cybsec-mlp-verified.onnx\<close>, leaving every other file as it was. The model written
  is \<open>model_for_sim\<close>, the loop runs with this \<open>model_for_sim\<close>, and the execution engine
  is called on no other model.
\<close>

theorem saved_model_is_model_for_sim:
  "(prepare L d = Inr (d', p) \<longrightarrow>
      (\<exists>m0 m. d ''cybsec-mlp.onnx'' = Some m0 \<and> tidy_up L m0 = Inr m \<and> mark_input m = Inr p) \<and>
      d' = d(''cybsec-mlp-verified.onnx'' \<mapsto> model_for_sim p) \<and>
      load_model d' ''cybsec-mlp-verified.onnx'' = Inr (model_for_sim p)) \<and>
   (notebook L d rng = Inr rep \<longrightarrow>
      (\<exists>q data f. prepare L d = Inr (disk_end rep, q) \<and>
         disk_end rep ''cybsec-mlp-verified.onnx'' = Some (model_for_sim q) \<and>
         verify_loop L q (input_tensor data) (eval_mode \<lparr>training = True, net = f\<rparr>) rng
           [0..<n_verification_inputs] (0, 0) = Inr (ok_end rep, nok_end rep))) \<and>
   (execute_onnx L (model_for_sim p) = execute_onnx L' (model_for_sim p) \<longrightarrow>
      inference_with_finn_onnx L p x = inference_with_finn_onnx L' p x)"
proof (intro conjI impI)
  assume a: "prepare L d = Inr (d', p)"
  from prepare_InrD(1)[OF a]
  show "\<exists>m0 m. d ''cybsec-mlp.onnx'' = Some m0 \<and> tidy_up L m0 = Inr m \<and> mark_input m = Inr p"
    by (simp add: model_file_path_def)
  from prepare_InrD(2)[OF a]
  show s: "d' = d(''cybsec-mlp-verified.onnx'' \<mapsto> model_for_sim p)"
    by (simp add: verified_model_filename_def)
  show "load_model d' ''cybsec-mlp-verified.onnx'' = Inr (model_for_sim p)"
    unfolding s by (simp add: load_model_def)
next
  assume "notebook L d rng = Inr rep"
  from notebook_InrD[OF this] obtain q data f where
    a: "prepare L d = Inr (disk_end rep, q)" and
    l: "verify_loop L q (input_tensor data) (eval_mode \<lparr>training = True, net = f\<rparr>) rng
         [0..<n_verification_inputs] (0, 0) = Inr (ok_end rep, nok_end rep)"
    by blast
  from prepare_InrD(2)[OF a]
  have "disk_end rep ''cybsec-mlp-verified.onnx'' = Some (model_for_sim q)"
    by (simp add: verified_model_filename_def)
  with a l
  show "\<exists>q data f. prepare L d = Inr (disk_end rep, q) \<and>
         disk_end rep ''cybsec-mlp-verified.onnx'' = Some (model_for_sim q) \<and>
         verify_loop L q (input_tensor data) (eval_mode \<lparr>training = True, net = f\<rparr>) rng
           [0..<n_verification_inputs] (0, 0) = Inr (ok_end rep, nok_end rep)"
    by blast
next
  assume e: "execute_onnx L (model_for_sim p) = execute_onnx L' (model_for_sim p)"
  show "inference_with_finn_onnx L p x = inference_with_finn_onnx L' p x"
    unfolding inference_with_finn_onnx_def e ..
qed

theorem saved_model_is_model_for_sim_witness:
  "prepare demo_lib demo_disk =
     Inr (demo_disk(''cybsec-mlp-verified.onnx'' \<mapsto> model_for_sim demo_prepared), demo_prepared) \<and>
   demo_disk ''cybsec-mlp.onnx'' = Some demo_model \<and>
   load_model (demo_disk(''cybsec-mlp-verified.onnx'' \<mapsto> model_for_sim demo_prepared))
     ''cybsec-mlp-verified.onnx'' = Inr (model_for_sim demo_prepared) \<and>
   (\<exists>rep. notebook demo_lib demo_disk (\<lambda>i. 0) = Inr rep \<and>
      disk_end rep ''cybsec-mlp-verified.onnx'' = Some (model_for_sim demo_prepared)) \<and>
   execute_onnx demo_lib (model_for_sim demo_prepared) =
     execute_onnx demo_lib_strict (model_for_sim demo_prepared) \<and>
   inference_with_finn_onnx demo_lib_strict demo_prepared demo_input = Inr 1"
proof -
  have e: "execute_onnx demo_lib (model_for_sim demo_prepared) =
     execute_onnx demo_lib_strict (model_for_sim demo_prepared)"
    by (simp add: demo_lib_strict_def demo_lib_def demo_prepared_def set_tensor_datatype_def)
  have k: "demo_disk ''cybsec-mlp.onnx'' = Some demo_model"
    by (simp add: demo_disk_def)
  from saved_model_is_model_for_sim[of demo_lib demo_disk
      "demo_disk(''cybsec-mlp-verified.onnx'' \<mapsto> model_for_sim demo_prepared)" demo_prepared
      "\<lambda>i. 0"
      "\<lparr>disk_end = demo_disk(''cybsec-mlp-verified.onnx'' \<mapsto> model_for_sim demo_prepared),
        ok_end = 100, nok_end = 0, printed = msg_succeeded\<rparr>"
      demo_lib_strict demo_input]
    e k demo_prepare demo_notebook[of "\<lambda>i. 0"] demo_finn_output
  show ?thesis
    by (simp del: verify_loop.simps)
qed

section \<open>The inputs of the two execution paths\<close>

lemma current_input_InrD:
  assumes "current_input inp i = Inr x"
  shows "i < length inp" and "elems x = inp ! i" and "shape x = [1, 593]"
    and "length (elems x) = 593"
  using assms unfolding current_input_def reshape_def
  by (auto split: if_splits)

lemma set_butlast_subset: "set (butlast xs) \<subseteq> set xs"
  by (auto dest: in_set_butlastD)

lemma input_tensor_nth:
  "i < n_verification_inputs \<Longrightarrow> i < length data \<Longrightarrow> input_tensor data ! i = butlast (data ! i)"
  by (simp add: input_tensor_def)

lemma length_input_tensor: "length (input_tensor data) = min (length data) n_verification_inputs"
  by (simp add: input_tensor_def)

text \<open>
  C7: the batch is the first \<open>n_verification_inputs = 100\<close> rows of the data set, each
  without its last column. A sample that reaches the two execution paths is row \<open>i\<close> of
  the batch as a tensor of shape (1, 593) with 593 elements, all 0 or 1 when the row's are;
  and for a data set of at least 100 rows of 594 entries every index below 100 reaches
  them, and the loop body runs both paths on that one tensor.
\<close>

theorem verification_batch:
  "input_tensor data = map butlast (take 100 data) \<and>
   (current_input (input_tensor data) i = Inr x \<longrightarrow>
      i < 100 \<and> i < length data \<and> shape x = [1, 593] \<and> length (elems x) = 593 \<and>
      elems x = butlast (data ! i) \<and>
      (set (data ! i) \<subseteq> {0, 1} \<longrightarrow> set (elems x) \<subseteq> {0, 1})) \<and>
   (100 \<le> length data \<and> (\<forall>row \<in> set (take 100 data). length row = 594) \<and> i < 100 \<longrightarrow>
      length (input_tensor data) = 100 \<and>
      current_input (input_tensor data) i =
        Inr \<lparr>shape = [1, 593], elems = butlast (data ! i)\<rparr> \<and>
      verify_body L p (input_tensor data) bm rng i t =
        compare_outputs L p bm (rng i) \<lparr>shape = [1, 593], elems = butlast (data ! i)\<rparr> t)"
proof (intro conjI impI)
  show "input_tensor data = map butlast (take 100 data)"
    by (simp add: input_tensor_def n_verification_inputs_def)
next
  assume a: "current_input (input_tensor data) i = Inr x"
  from current_input_InrD(1)[OF a] show i: "i < 100" and j: "i < length data"
    by (simp_all add: length_input_tensor n_verification_inputs_def)
  show "shape x = [1, 593]" by (rule current_input_InrD(3)[OF a])
  show "length (elems x) = 593" by (rule current_input_InrD(4)[OF a])
  from current_input_InrD(2)[OF a] i j show e: "elems x = butlast (data ! i)"
    by (simp add: input_tensor_nth n_verification_inputs_def)
  assume "set (data ! i) \<subseteq> {0, 1}"
  with set_butlast_subset[of "data ! i"] show "set (elems x) \<subseteq> {0, 1}"
    unfolding e by blast
next
  assume h: "100 \<le> length data \<and> (\<forall>row \<in> set (take 100 data). length row = 594) \<and> i < 100"
  then have "data ! i \<in> set (take 100 data)"
    by (metis in_set_conv_nth length_take min.absorb2 nth_take)
  with h have len: "length (data ! i) = 594" by blast
  from h show "length (input_tensor data) = 100"
    by (simp add: length_input_tensor n_verification_inputs_def)
  from h len show c: "current_input (input_tensor data) i =
        Inr \<lparr>shape = [1, 593], elems = butlast (data ! i)\<rparr>"
    by (simp add: current_input_def reshape_def length_input_tensor input_tensor_nth
        n_verification_inputs_def)
  show "verify_body L p (input_tensor data) bm rng i t =
        compare_outputs L p bm (rng i) \<lparr>shape = [1, 593], elems = butlast (data ! i)\<rparr> t"
    by (simp add: verify_body_def c)
qed

theorem verification_batch_witness:
  "100 \<le> length demo_data \<and> map length (take 100 demo_data) = replicate 100 594 \<and>
   (7::nat) < 100 \<and> set (demo_data ! 7) = {0, 1} \<and>
   current_input (input_tensor demo_data) 7 = Inr demo_input \<and>
   shape demo_input = [1, 593] \<and> length (elems demo_input) = 593 \<and>
   elems demo_input = butlast (demo_data ! 7) \<and> set (elems demo_input) \<subseteq> {0, 1} \<and>
   verify_body demo_lib demo_prepared (input_tensor demo_data) demo_brevitas (\<lambda>i. 0) 7 (0, 0) =
     compare_outputs demo_lib demo_prepared demo_brevitas 0 demo_input (0, 0)"
proof -
  have h: "100 \<le> length demo_data \<and> (\<forall>row \<in> set (take 100 demo_data). length row = 594) \<and>
      (7::nat) < 100"
    by (simp add: demo_data_def)
  have s: "set (demo_data ! 7) \<subseteq> {0, 1}"
    by (simp add: demo_data_def)
  have s': "set (demo_data ! 7) = {0, 1}"
    by (auto simp add: demo_data_def)
  have m: "map length (take 100 demo_data) = replicate 100 594"
    by (simp add: demo_data_def)
  have b: "\<lparr>shape = [1, 593], elems = butlast (demo_data ! 7)\<rparr> = demo_input"
    by (simp add: demo_data_def demo_input_def butlast_append)
  have c: "current_input (input_tensor demo_data) 7 = Inr demo_input"
    by (simp add: demo_current_input)
  note T = verification_batch[of demo_data 7 demo_input demo_lib demo_prepared demo_brevitas
      "\<lambda>i. 0" "(0, 0)", unfolded b]
  from T h s c have "current_input (input_tensor demo_data) 7 = Inr demo_input \<and>
      shape demo_input = [1, 593] \<and> length (elems demo_input) = 593 \<and>
      elems demo_input = butlast (demo_data ! 7) \<and> set (elems demo_input) \<subseteq> {0, 1} \<and>
      verify_body demo_lib demo_prepared (input_tensor demo_data) demo_brevitas (\<lambda>i. 0) 7 (0, 0) =
        compare_outputs demo_lib demo_prepared demo_brevitas 0 demo_input (0, 0)"
    by blast
  with h s' m show ?thesis
    by blast
qed

lemma rows_of_single: "rows_of (Suc 0) c xs = [take c xs]"
  by (simp add: rows_of_def)

lemma np_pad_row:
  "np_pad \<lparr>shape = [1, length xs], elems = xs\<rparr> k =
     Inr \<lparr>shape = [1, length xs + k], elems = xs @ replicate k 0\<rparr>"
  by (simp add: np_pad_def rows_of_single)

text \<open>
  C9: on a sample of shape (1, 593) with entries 0 or 1, and with the graph's input shape
  [1, 600], the execution engine receives under the input's name a tensor of shape
  [1, 600] with entries -1 or +1: the 593 input values mapped by \<open>x \<mapsto> 2 x - 1\<close>,
  followed by 7 entries -1 (the zero padding, rescaled with the rest).
\<close>

theorem finn_input_preprocessing:
  assumes "length xs = 593"
    and "set xs \<subseteq> {0, 1}"
    and "finnonnx_model_in_shape p = Some [1, 600]"
  shows "inference_with_finn_onnx L p \<lparr>shape = [1, 593], elems = xs\<rparr> =
           (case execute_onnx L (model_for_sim p)
                   (Map.empty(finnonnx_in_tensor_name p \<mapsto>
                      \<lparr>shape = [1, 600],
                       elems = map (\<lambda>x. 2 * x - 1) xs @ replicate 7 (- 1)\<rparr>)) of
              Inl e \<Rightarrow> Inl e
            | Inr output_dict \<Rightarrow>
                (case output_dict (finnonnx_out_tensor_name p) of
                   None \<Rightarrow> Inl (KeyError (finnonnx_out_tensor_name p))
                 | Some finn_output \<Rightarrow> Inr finn_output)) \<and>
         length (map (\<lambda>x. 2 * x - 1) xs @ replicate 7 (- 1 :: real)) = 600 \<and>
         set (map (\<lambda>x. 2 * x - 1) xs @ replicate 7 (- 1 :: real)) \<subseteq> {- 1, 1}"
proof (intro conjI)
  from np_pad_row[of xs 7] assms(1)
  have pad: "np_pad \<lparr>shape = [1, 593], elems = xs\<rparr> 7 =
      Inr \<lparr>shape = [1, 600], elems = xs @ replicate 7 0\<rparr>"
    by simp
  show "inference_with_finn_onnx L p \<lparr>shape = [1, 593], elems = xs\<rparr> =
           (case execute_onnx L (model_for_sim p)
                   (Map.empty(finnonnx_in_tensor_name p \<mapsto>
                      \<lparr>shape = [1, 600],
                       elems = map (\<lambda>x. 2 * x - 1) xs @ replicate 7 (- 1)\<rparr>)) of
              Inl e \<Rightarrow> Inl e
            | Inr output_dict \<Rightarrow>
                (case output_dict (finnonnx_out_tensor_name p) of
                   None \<Rightarrow> Inl (KeyError (finnonnx_out_tensor_name p))
                 | Some finn_output \<Rightarrow> Inr finn_output))"
    using assms(1,3) pad
    by (simp add: inference_with_finn_onnx_def reshape_def)
  show "length (map (\<lambda>x. 2 * x - 1) xs @ replicate 7 (- 1 :: real)) = 600"
    using assms(1) by simp
  show "set (map (\<lambda>x. 2 * x - 1) xs @ replicate 7 (- 1 :: real)) \<subseteq> {- 1, 1}"
    using assms(2) by auto
qed

theorem finn_input_preprocessing_witness:
  "length (replicate 592 (1::real) @ [0]) = 593 \<and> set (replicate 592 (1::real) @ [0]) \<subseteq> {0, 1} \<and>
   finnonnx_model_in_shape demo_prepared = Some [1, 600] \<and>
   inference_with_finn_onnx demo_lib demo_prepared
     \<lparr>shape = [1, 593], elems = replicate 592 1 @ [0]\<rparr> = Inr 1 \<and>
   map (\<lambda>x. 2 * x - 1) (replicate 592 (1::real) @ [0]) @ replicate 7 (- 1) =
     replicate 592 1 @ replicate 8 (- 1)"
proof -
  have a: "length (replicate 592 (1::real) @ [0]) = 593" by simp
  have b: "set (replicate 592 (1::real) @ [0]) \<subseteq> {0, 1}" by auto
  have c: "finnonnx_model_in_shape demo_prepared = Some [1, 600]"
    by (simp add: demo_prepared_def)
  have d: "map (\<lambda>x. 2 * x - 1) (replicate 592 (1::real) @ [0]) @ replicate 7 (- 1) =
     replicate 592 1 @ replicate 8 (- 1)"
    by (simp add: numeral_eq_Suc)
  have e: "execute_onnx demo_lib = (\<lambda>m d. Inr (Map.empty(''global_out'' \<mapsto> 1)))"
    by (simp add: demo_lib_def)
  have o: "finnonnx_out_tensor_name demo_prepared = ''global_out''"
    by (simp add: demo_prepared_def)
  from finn_input_preprocessing[OF a b c, of demo_lib] a b c d
  show ?thesis
    by (simp add: e o)
qed

section \<open>Failures\<close>

lemma apply_passes_append:
  "apply_passes L (xs @ ys) m =
     (case apply_passes L xs m of Inl e \<Rightarrow> Inl e | Inr m' \<Rightarrow> apply_passes L ys m')"
  by (induction xs arbitrary: m) (auto split: sum.splits)

lemma apply_passes_InlD:
  "apply_passes L ts m = Inl e \<Longrightarrow>
   \<exists>pre t post m'. ts = pre @ t # post \<and> apply_passes L pre m = Inr m' \<and>
      transform L t m' = Inl e"
proof (induction ts arbitrary: m)
  case Nil
  then show ?case by simp
next
  case (Cons t ts)
  show ?case
  proof (cases "transform L t m")
    case (Inl e')
    with Cons.prems have "e' = e" by simp
    with Inl have "t # ts = [] @ t # ts \<and> apply_passes L [] m = Inr m \<and> transform L t m = Inl e"
      by simp
    then show ?thesis by blast
  next
    case (Inr m1)
    with Cons.prems have "apply_passes L ts m1 = Inl e" by simp
    from Cons.IH[OF this] obtain pre u post m' where
      "ts = pre @ u # post" "apply_passes L pre m1 = Inr m'" "transform L u m' = Inl e"
      by blast
    with Inr have "t # ts = (t # pre) @ u # post \<and> apply_passes L (t # pre) m = Inr m' \<and>
        transform L u m' = Inl e"
      by simp
    then show ?thesis by blast
  qed
qed

lemma apply_passes_Inl_iff:
  "(apply_passes L ts m = Inl e) =
     (\<exists>pre t post m'. ts = pre @ t # post \<and> apply_passes L pre m = Inr m' \<and>
        transform L t m' = Inl e)"
proof
  assume "apply_passes L ts m = Inl e"
  then show "\<exists>pre t post m'. ts = pre @ t # post \<and> apply_passes L pre m = Inr m' \<and>
        transform L t m' = Inl e"
    by (rule apply_passes_InlD)
next
  assume "\<exists>pre t post m'. ts = pre @ t # post \<and> apply_passes L pre m = Inr m' \<and>
        transform L t m' = Inl e"
  then show "apply_passes L ts m = Inl e"
    by (auto simp: apply_passes_append)
qed

lemma verify_loop_InlD:
  "verify_loop L p inp bm rng ks t = Inl (e, t') \<Longrightarrow>
   \<exists>pre i post. ks = pre @ i # post \<and> verify_loop L p inp bm rng pre t = Inr t' \<and>
      verify_body L p inp bm rng i t' = Inl e"
proof (induction ks arbitrary: t)
  case Nil
  then show ?case by simp
next
  case (Cons k ks)
  show ?case
  proof (cases "verify_body L p inp bm rng k t")
    case (Inl e')
    with Cons.prems have "e' = e" "t' = t" by simp_all
    with Inl have "k # ks = [] @ k # ks \<and> verify_loop L p inp bm rng [] t = Inr t' \<and>
        verify_body L p inp bm rng k t' = Inl e"
      by simp
    then show ?thesis by blast
  next
    case (Inr t1)
    with Cons.prems have "verify_loop L p inp bm rng ks t1 = Inl (e, t')" by simp
    from Cons.IH[OF this] obtain pre i post where
      "ks = pre @ i # post" "verify_loop L p inp bm rng pre t1 = Inr t'"
      "verify_body L p inp bm rng i t' = Inl e"
      by blast
    with Inr have "k # ks = (k # pre) @ i # post \<and>
        verify_loop L p inp bm rng (k # pre) t = Inr t' \<and>
        verify_body L p inp bm rng i t' = Inl e"
      by simp
    then show ?thesis by blast
  qed
qed

lemma verify_loop_Inl_iff:
  "(verify_loop L p inp bm rng ks t = Inl (e, t')) =
     (\<exists>pre i post. ks = pre @ i # post \<and> verify_loop L p inp bm rng pre t = Inr t' \<and>
        verify_body L p inp bm rng i t' = Inl e)"
proof
  assume "verify_loop L p inp bm rng ks t = Inl (e, t')"
  then show "\<exists>pre i post. ks = pre @ i # post \<and> verify_loop L p inp bm rng pre t = Inr t' \<and>
        verify_body L p inp bm rng i t' = Inl e"
    by (rule verify_loop_InlD)
next
  assume "\<exists>pre i post. ks = pre @ i # post \<and> verify_loop L p inp bm rng pre t = Inr t' \<and>
        verify_body L p inp bm rng i t' = Inl e"
  then show "verify_loop L p inp bm rng ks t = Inl (e, t')"
    by (auto simp: verify_loop_append)
qed

lemma inference_with_brevitas_Inl_iff:
  "(inference_with_brevitas L bm r x = Inl e) = (forward bm r x = Inl e)"
  by (simp add: inference_with_brevitas_threshold split: sum.splits)

lemma inference_with_brevitas_Inr_iff:
  "(\<exists>y. inference_with_brevitas L bm r x = Inr y) = (\<exists>y. forward bm r x = Inr y)"
  by (simp add: inference_with_brevitas_threshold split: sum.splits)

lemma verify_body_Inl_iff:
  "(verify_body L p inp bm rng i t = Inl e) =
     (current_input inp i = Inl e \<or>
      (\<exists>x. current_input inp i = Inr x \<and>
         (forward bm (rng i) x = Inl e \<or>
          (\<exists>y. forward bm (rng i) x = Inr y) \<and> inference_with_finn_onnx L p x = Inl e)))"
  unfolding verify_body_def compare_outputs_def inference_with_brevitas_threshold
  by (auto split: sum.splits)

lemma current_input_Inl_iff:
  "(current_input inp i = Inl e) =
     (length inp \<le> i \<and> e = IndexError \<or>
      i < length inp \<and> length (inp ! i) \<noteq> 593 \<and> e = ShapeError)"
  unfolding current_input_def reshape_def
  by auto

lemma np_pad_Inl_iff:
  "(np_pad x k = Inl e) = (length (shape x) \<noteq> 2 \<and> e = ShapeError)"
  unfolding np_pad_def
  by (auto split: list.splits)

lemma mark_input_Inl_iff:
  "(mark_input m = Inl e) = ((graph_input m = [] \<or> graph_output m = []) \<and> e = IndexError)"
  unfolding mark_input_def
  by (auto split: list.splits)

lemma inference_with_finn_onnx_Inl_iff:
  "(inference_with_finn_onnx L p x = Inl e) =
     (np_pad x 7 = Inl e \<or>
      (\<exists>padded. np_pad x 7 = Inr padded \<and>
         ((\<exists>shp. finnonnx_model_in_shape p = Some shp \<and>
             reshape (padded\<lparr>elems := map (\<lambda>v. 2 * v - 1) (elems padded)\<rparr>) shp = Inl e) \<or>
          (\<exists>fed.
             (finnonnx_model_in_shape p = None \<and>
                fed = padded\<lparr>elems := map (\<lambda>v. 2 * v - 1) (elems padded)\<rparr> \<or>
              (\<exists>shp. finnonnx_model_in_shape p = Some shp \<and>
                 reshape (padded\<lparr>elems := map (\<lambda>v. 2 * v - 1) (elems padded)\<rparr>) shp =
                   Inr fed)) \<and>
             (execute_onnx L (model_for_sim p) (Map.empty(finnonnx_in_tensor_name p \<mapsto> fed)) =
                Inl e \<or>
              (\<exists>out.
                 execute_onnx L (model_for_sim p) (Map.empty(finnonnx_in_tensor_name p \<mapsto> fed)) =
                   Inr out \<and>
                 out (finnonnx_out_tensor_name p) = None \<and>
                 e = KeyError (finnonnx_out_tensor_name p)))))))"
  unfolding inference_with_finn_onnx_def Let_def
  by (auto split: sum.splits option.splits)

lemma prepare_Inl_iff:
  "(prepare L d = Inl (e, dleft)) =
     (d model_file_path = None \<and> e = FileNotFoundError model_file_path \<and> dleft = d \<or>
      (\<exists>m0. d model_file_path = Some m0 \<and>
         (showInNetron L d model_file_path = Some e \<and> dleft = d \<or>
          showInNetron L d model_file_path = None \<and>
          (tidy_up L m0 = Inl e \<and> dleft = d \<or>
           (\<exists>m. tidy_up L m0 = Inr m \<and>
              (mark_input m = Inl e \<and> dleft = d \<or>
               (\<exists>p. mark_input m = Inr p \<and>
                  save_failure L d verified_model_filename (model_for_sim p) =
                    Some (e, dleft))))))))"
  unfolding prepare_def load_model_def save_def
  by (auto split: sum.splits option.splits prod.splits)

lemma notebook_Inl_iff:
  "(notebook L d rng = Inl a) =
     (prepare L d = Inl (raised a, disk_then a) \<and> tally_then a = None \<or>
      (\<exists>d' p. prepare L d = Inr (d', p) \<and> disk_then a = d' \<and>
         (showInNetron L d' verified_model_filename = Some (raised a) \<and> tally_then a = None \<or>
          showInNetron L d' verified_model_filename = None \<and>
          (UNSW_NB15_quantized L = Inl (raised a) \<and> tally_then a = None \<or>
           (\<exists>data. UNSW_NB15_quantized L = Inr data \<and>
              (load_state_dict L = Inl (raised a) \<and> tally_then a = None \<or>
               (\<exists>f t. load_state_dict L = Inr f \<and> tally_then a = Some t \<and>
                  verify_loop L p (input_tensor data)
                    (eval_mode \<lparr>training = True, net = f\<rparr>)
                    rng [0..<n_verification_inputs] (0, 0) = Inl (raised a, t))))))))"
  unfolding notebook_def
  by (cases a) (auto split: sum.splits prod.splits option.splits)

lemma demo_engine_raises_prepare:
  "prepare demo_lib_engine_raises demo_disk =
     Inr (demo_disk(''cybsec-mlp-verified.onnx'' \<mapsto> model_for_sim demo_prepared), demo_prepared)"
  by (rule demo_variant_prepare) (simp_all add: demo_lib_engine_raises_def demo_lib_def)

lemma demo_engine_raises_finn:
  "inference_with_finn_onnx demo_lib_engine_raises demo_prepared demo_input =
     Inl (LibraryError ''shape mismatch'')"
  by (simp add: inference_with_finn_onnx_def np_pad_def rows_of_def reshape_def
      demo_lib_engine_raises_def demo_lib_def demo_prepared_def demo_input_def)

lemma demo_engine_raises_body:
  "verify_body demo_lib_engine_raises demo_prepared (input_tensor demo_data) demo_brevitas rng 0 t
     = Inl (LibraryError ''shape mismatch'')"
proof -
  have "inference_with_brevitas demo_lib_engine_raises demo_brevitas (rng 0) demo_input = Inr 1"
    by (rule demo_variant_brevitas_output)
      (simp add: demo_lib_engine_raises_def demo_lib_def)
  then show ?thesis
    by (simp add: verify_body_def demo_current_input compare_outputs_def
        demo_engine_raises_finn)
qed

lemma demo_netron_raises_prepare:
  "prepare demo_lib_netron_raises demo_disk =
     Inr (demo_disk(''cybsec-mlp-verified.onnx'' \<mapsto> model_for_sim demo_prepared), demo_prepared)"
  by (rule demo_variant_prepare)
    (simp_all add: demo_lib_netron_raises_def demo_lib_def model_file_path_def)

lemma demo_save_raises_tidy_up: "tidy_up demo_lib_save_raises demo_model = Inr demo_tidy"
  by (simp add: tidy_up_def demo_lib_save_raises_def demo_lib_def demo_model_def demo_tidy_def)

lemma upt_100_Cons: "[0..<n_verification_inputs] = [] @ 0 # [1..<100]"
  by (simp add: n_verification_inputs_def upt_conv_Cons)

text \<open>
  C8: nothing in the notebook catches an exception. The run aborts exactly when one of
  these calls fails: the load of the model, the visualisation of the loaded file, one of
  the passes, the marking, the save, the visualisation of the saved file, the load of the
  data set or of the checkpoint, or an iteration of the loop (the indexing and reshape of
  the sample, the forward pass of the network, the padding and reshape of the engine's
  input, the execution of the graph, the lookup of its output). The exception reported is
  the one that call raised, the files on disk are those left at that point, and the
  counters are those of the iterations completed before it.
\<close>

theorem failures_propagate:
  "(notebook L d rng = Inl a) =
     (prepare L d = Inl (raised a, disk_then a) \<and> tally_then a = None \<or>
      (\<exists>d' p. prepare L d = Inr (d', p) \<and> disk_then a = d' \<and>
         (showInNetron L d' ''cybsec-mlp-verified.onnx'' = Some (raised a) \<and>
            tally_then a = None \<or>
          showInNetron L d' ''cybsec-mlp-verified.onnx'' = None \<and>
          (UNSW_NB15_quantized L = Inl (raised a) \<and> tally_then a = None \<or>
           (\<exists>data. UNSW_NB15_quantized L = Inr data \<and>
              (load_state_dict L = Inl (raised a) \<and> tally_then a = None \<or>
               (\<exists>f t. load_state_dict L = Inr f \<and> tally_then a = Some t \<and>
                  (\<exists>pre i post. [0..<n_verification_inputs] = pre @ i # post \<and>
                     verify_loop L p (input_tensor data)
                       (eval_mode \<lparr>training = True, net = f\<rparr>) rng pre (0, 0) = Inr t \<and>
                     verify_body L p (input_tensor data)
                       (eval_mode \<lparr>training = True, net = f\<rparr>) rng i t =
                       Inl (raised a))))))))) \<and>
   (prepare L d = Inl (e, dleft)) =
     (d ''cybsec-mlp.onnx'' = None \<and> e = FileNotFoundError ''cybsec-mlp.onnx'' \<and> dleft = d \<or>
      (\<exists>m0. d ''cybsec-mlp.onnx'' = Some m0 \<and>
         (showInNetron L d ''cybsec-mlp.onnx'' = Some e \<and> dleft = d \<or>
          showInNetron L d ''cybsec-mlp.onnx'' = None \<and>
          (tidy_up L m0 = Inl e \<and> dleft = d \<or>
           (\<exists>m. tidy_up L m0 = Inr m \<and>
              (mark_input m = Inl e \<and> dleft = d \<or>
               (\<exists>q. mark_input m = Inr q \<and>
                  save_failure L d ''cybsec-mlp-verified.onnx'' (model_for_sim q) =
                    Some (e, dleft)))))))) \<and>
   (tidy_up L m = Inl e) =
     (\<exists>pre t post m'.
        [InferShapes, FoldConstants, GiveUniqueNodeNames, GiveReadableTensorNames,
         InferDataTypes, RemoveStaticGraphInputs] = pre @ t # post \<and>
        apply_passes L pre m = Inr m' \<and> transform L t m' = Inl e) \<and>
   (mark_input m = Inl e) =
     ((graph_input m = [] \<or> graph_output m = []) \<and> e = IndexError) \<and>
   (verify_loop L p inp bm rng ks t = Inl (e, t')) =
     (\<exists>pre i post. ks = pre @ i # post \<and> verify_loop L p inp bm rng pre t = Inr t' \<and>
        verify_body L p inp bm rng i t' = Inl e) \<and>
   (verify_body L p inp bm rng i t = Inl e) =
     (current_input inp i = Inl e \<or>
      (\<exists>x. current_input inp i = Inr x \<and>
         (forward bm (rng i) x = Inl e \<or>
          (\<exists>y. forward bm (rng i) x = Inr y) \<and> inference_with_finn_onnx L p x = Inl e))) \<and>
   (current_input inp i = Inl e) =
     (length inp \<le> i \<and> e = IndexError \<or>
      i < length inp \<and> length (inp ! i) \<noteq> 593 \<and> e = ShapeError) \<and>
   (inference_with_finn_onnx L p x = Inl e) =
     (np_pad x 7 = Inl e \<or>
      (\<exists>padded. np_pad x 7 = Inr padded \<and>
         ((\<exists>shp. finnonnx_model_in_shape p = Some shp \<and>
             reshape (padded\<lparr>elems := map (\<lambda>v. 2 * v - 1) (elems padded)\<rparr>) shp = Inl e) \<or>
          (\<exists>fed.
             (finnonnx_model_in_shape p = None \<and>
                fed = padded\<lparr>elems := map (\<lambda>v. 2 * v - 1) (elems padded)\<rparr> \<or>
              (\<exists>shp. finnonnx_model_in_shape p = Some shp \<and>
                 reshape (padded\<lparr>elems := map (\<lambda>v. 2 * v - 1) (elems padded)\<rparr>) shp =
                   Inr fed)) \<and>
             (execute_onnx L (model_for_sim p) (Map.empty(finnonnx_in_tensor_name p \<mapsto> fed)) =
                Inl e \<or>
              (\<exists>out.
                 execute_onnx L (model_for_sim p) (Map.empty(finnonnx_in_tensor_name p \<mapsto> fed)) =
                   Inr out \<and>
                 out (finnonnx_out_tensor_name p) = None \<and>
                 e = KeyError (finnonnx_out_tensor_name p))))))) \<and>
   (np_pad x 7 = Inl e) = (length (shape x) \<noteq> 2 \<and> e = ShapeError)"
proof (intro conjI)
  show "(notebook L d rng = Inl a) =
     (prepare L d = Inl (raised a, disk_then a) \<and> tally_then a = None \<or>
      (\<exists>d' p. prepare L d = Inr (d', p) \<and> disk_then a = d' \<and>
         (showInNetron L d' ''cybsec-mlp-verified.onnx'' = Some (raised a) \<and>
            tally_then a = None \<or>
          showInNetron L d' ''cybsec-mlp-verified.onnx'' = None \<and>
          (UNSW_NB15_quantized L = Inl (raised a) \<and> tally_then a = None \<or>
           (\<exists>data. UNSW_NB15_quantized L = Inr data \<and>
              (load_state_dict L = Inl (raised a) \<and> tally_then a = None \<or>
               (\<exists>f t. load_state_dict L = Inr f \<and> tally_then a = Some t \<and>
                  (\<exists>pre i post. [0..<n_verification_inputs] = pre @ i # post \<and>
                     verify_loop L p (input_tensor data)
                       (eval_mode \<lparr>training = True, net = f\<rparr>) rng pre (0, 0) = Inr t \<and>
                     verify_body L p (input_tensor data)
                       (eval_mode \<lparr>training = True, net = f\<rparr>) rng i t =
                       Inl (raised a)))))))))"
    unfolding notebook_Inl_iff verify_loop_Inl_iff verified_model_filename_def ..
  show "(prepare L d = Inl (e, dleft)) =
     (d ''cybsec-mlp.onnx'' = None \<and> e = FileNotFoundError ''cybsec-mlp.onnx'' \<and> dleft = d \<or>
      (\<exists>m0. d ''cybsec-mlp.onnx'' = Some m0 \<and>
         (showInNetron L d ''cybsec-mlp.onnx'' = Some e \<and> dleft = d \<or>
          showInNetron L d ''cybsec-mlp.onnx'' = None \<and>
          (tidy_up L m0 = Inl e \<and> dleft = d \<or>
           (\<exists>m. tidy_up L m0 = Inr m \<and>
              (mark_input m = Inl e \<and> dleft = d \<or>
               (\<exists>q. mark_input m = Inr q \<and>
                  save_failure L d ''cybsec-mlp-verified.onnx'' (model_for_sim q) =
                    Some (e, dleft))))))))"
    by (rule prepare_Inl_iff[unfolded model_file_path_def verified_model_filename_def])
  show "(tidy_up L m = Inl e) =
     (\<exists>pre t post m'.
        [InferShapes, FoldConstants, GiveUniqueNodeNames, GiveReadableTensorNames,
         InferDataTypes, RemoveStaticGraphInputs] = pre @ t # post \<and>
        apply_passes L pre m = Inr m' \<and> transform L t m' = Inl e)"
    unfolding tidy_up_apply_passes by (rule apply_passes_Inl_iff)
  show "(mark_input m = Inl e) =
     ((graph_input m = [] \<or> graph_output m = []) \<and> e = IndexError)"
    by (rule mark_input_Inl_iff)
  show "(verify_loop L p inp bm rng ks t = Inl (e, t')) =
     (\<exists>pre i post. ks = pre @ i # post \<and> verify_loop L p inp bm rng pre t = Inr t' \<and>
        verify_body L p inp bm rng i t' = Inl e)"
    by (rule verify_loop_Inl_iff)
  show "(verify_body L p inp bm rng i t = Inl e) =
     (current_input inp i = Inl e \<or>
      (\<exists>x. current_input inp i = Inr x \<and>
         (forward bm (rng i) x = Inl e \<or>
          (\<exists>y. forward bm (rng i) x = Inr y) \<and> inference_with_finn_onnx L p x = Inl e)))"
    by (rule verify_body_Inl_iff)
  show "(current_input inp i = Inl e) =
     (length inp \<le> i \<and> e = IndexError \<or>
      i < length inp \<and> length (inp ! i) \<noteq> 593 \<and> e = ShapeError)"
    by (rule current_input_Inl_iff)
  show "(inference_with_finn_onnx L p x = Inl e) =
     (np_pad x 7 = Inl e \<or>
      (\<exists>padded. np_pad x 7 = Inr padded \<and>
         ((\<exists>shp. finnonnx_model_in_shape p = Some shp \<and>
             reshape (padded\<lparr>elems := map (\<lambda>v. 2 * v - 1) (elems padded)\<rparr>) shp = Inl e) \<or>
          (\<exists>fed.
             (finnonnx_model_in_shape p = None \<and>
                fed = padded\<lparr>elems := map (\<lambda>v. 2 * v - 1) (elems padded)\<rparr> \<or>
              (\<exists>shp. finnonnx_model_in_shape p = Some shp \<and>
                 reshape (padded\<lparr>elems := map (\<lambda>v. 2 * v - 1) (elems padded)\<rparr>) shp =
                   Inr fed)) \<and>
             (execute_onnx L (model_for_sim p) (Map.empty(finnonnx_in_tensor_name p \<mapsto> fed)) =
                Inl e \<or>
              (\<exists>out.
                 execute_onnx L (model_for_sim p) (Map.empty(finnonnx_in_tensor_name p \<mapsto> fed)) =
                   Inr out \<and>
                 out (finnonnx_out_tensor_name p) = None \<and>
                 e = KeyError (finnonnx_out_tensor_name p)))))))"
    by (rule inference_with_finn_onnx_Inl_iff)
  show "(np_pad x 7 = Inl e) = (length (shape x) \<noteq> 2 \<and> e = ShapeError)"
    by (rule np_pad_Inl_iff)
qed

theorem failures_propagate_witness:
  "notebook demo_lib Map.empty (\<lambda>i. 0) =
     Inl \<lparr>raised = FileNotFoundError ''cybsec-mlp.onnx'', disk_then = Map.empty,
          tally_then = None\<rparr> \<and>
   tidy_up demo_lib_pass_raises demo_model = Inl (LibraryError ''pass failed'') \<and>
   notebook demo_lib_save_raises demo_disk (\<lambda>i. 0) =
     Inl \<lparr>raised = LibraryError ''disk full'', disk_then = demo_disk, tally_then = None\<rparr> \<and>
   notebook demo_lib_netron_raises demo_disk (\<lambda>i. 0) =
     Inl \<lparr>raised = LibraryError ''port in use'',
          disk_then = demo_disk(''cybsec-mlp-verified.onnx'' \<mapsto> model_for_sim demo_prepared),
          tally_then = None\<rparr> \<and>
   notebook demo_lib_engine_raises demo_disk (\<lambda>i. 0) =
     Inl \<lparr>raised = LibraryError ''shape mismatch'',
          disk_then = demo_disk(''cybsec-mlp-verified.onnx'' \<mapsto> model_for_sim demo_prepared),
          tally_then = Some (0, 0)\<rparr>"
proof -
  have 1: "notebook demo_lib Map.empty (\<lambda>i. 0) =
     Inl \<lparr>raised = FileNotFoundError ''cybsec-mlp.onnx'', disk_then = Map.empty,
          tally_then = None\<rparr>"
  proof -
    note P = failures_propagate[where L = demo_lib
        and d = Map.empty and e = "FileNotFoundError ''cybsec-mlp.onnx''" and dleft = Map.empty,
      THEN conjunct2, THEN conjunct1]
    note N = failures_propagate[where L = demo_lib and d = Map.empty
        and rng = "\<lambda>i. 0"
        and a = "\<lparr>raised = FileNotFoundError ''cybsec-mlp.onnx'', disk_then = Map.empty,
          tally_then = None\<rparr>",
      THEN conjunct1]
    from P have "prepare demo_lib Map.empty =
        Inl (FileNotFoundError ''cybsec-mlp.onnx'', Map.empty)"
      by simp
    with N show ?thesis by simp
  qed
  have 2: "tidy_up demo_lib_pass_raises demo_model = Inl (LibraryError ''pass failed'')"
  proof -
    have "[InferShapes, FoldConstants, GiveUniqueNodeNames, GiveReadableTensorNames,
           InferDataTypes, RemoveStaticGraphInputs] =
          [InferShapes, FoldConstants] @ GiveUniqueNodeNames #
            [GiveReadableTensorNames, InferDataTypes, RemoveStaticGraphInputs] \<and>
        apply_passes demo_lib_pass_raises [InferShapes, FoldConstants] demo_model =
          Inr (demo_model\<lparr>nodes := [InferShapes, FoldConstants]\<rparr>) \<and>
        transform demo_lib_pass_raises GiveUniqueNodeNames
          (demo_model\<lparr>nodes := [InferShapes, FoldConstants]\<rparr>) =
          Inl (LibraryError ''pass failed'')"
      by (simp add: demo_lib_pass_raises_def demo_lib_def demo_model_def)
    then show ?thesis
      unfolding failures_propagate[where L = demo_lib_pass_raises and m = demo_model
          and e = "LibraryError ''pass failed''",
      THEN conjunct2, THEN conjunct2, THEN conjunct1]
      by blast
  qed
  have 3: "notebook demo_lib_save_raises demo_disk (\<lambda>i. 0) =
     Inl \<lparr>raised = LibraryError ''disk full'', disk_then = demo_disk, tally_then = None\<rparr>"
  proof -
    note P = failures_propagate[where L = demo_lib_save_raises
        and d = demo_disk and e = "LibraryError ''disk full''" and dleft = demo_disk,
      THEN conjunct2, THEN conjunct1]
    note N = failures_propagate[where L = demo_lib_save_raises and d = demo_disk
        and rng = "\<lambda>i. 0"
        and a = "\<lparr>raised = LibraryError ''disk full'', disk_then = demo_disk,
          tally_then = None\<rparr>",
      THEN conjunct1]
    have "demo_disk ''cybsec-mlp.onnx'' = Some demo_model"
      and "showInNetron demo_lib_save_raises demo_disk ''cybsec-mlp.onnx'' = None"
      and "save_failure demo_lib_save_raises demo_disk ''cybsec-mlp-verified.onnx''
        (model_for_sim demo_prepared) = Some (LibraryError ''disk full'', demo_disk)"
      by (simp_all add: demo_disk_def demo_lib_save_raises_def demo_lib_def)
    with demo_save_raises_tidy_up demo_mark_input
    have "prepare demo_lib_save_raises demo_disk = Inl (LibraryError ''disk full'', demo_disk)"
      unfolding P by blast
    with N show ?thesis by simp
  qed
  have 4: "notebook demo_lib_netron_raises demo_disk (\<lambda>i. 0) =
     Inl \<lparr>raised = LibraryError ''port in use'',
          disk_then = demo_disk(''cybsec-mlp-verified.onnx'' \<mapsto> model_for_sim demo_prepared),
          tally_then = None\<rparr>"
  proof -
    note N = failures_propagate[where L = demo_lib_netron_raises and d = demo_disk
        and rng = "\<lambda>i. 0"
        and a = "\<lparr>raised = LibraryError ''port in use'',
          disk_then = demo_disk(''cybsec-mlp-verified.onnx'' \<mapsto> model_for_sim demo_prepared),
          tally_then = None\<rparr>",
      THEN conjunct1]
    have "showInNetron demo_lib_netron_raises
        (demo_disk(''cybsec-mlp-verified.onnx'' \<mapsto> model_for_sim demo_prepared))
        ''cybsec-mlp-verified.onnx'' = Some (LibraryError ''port in use'')"
      by (simp add: demo_lib_netron_raises_def)
    then show ?thesis
      unfolding N
      by (simp add: demo_netron_raises_prepare)
  qed
  have 5: "notebook demo_lib_engine_raises demo_disk (\<lambda>i. 0) =
     Inl \<lparr>raised = LibraryError ''shape mismatch'',
          disk_then = demo_disk(''cybsec-mlp-verified.onnx'' \<mapsto> model_for_sim demo_prepared),
          tally_then = Some (0, 0)\<rparr>"
  proof -
    have u: "UNSW_NB15_quantized demo_lib_engine_raises = Inr demo_data"
      and s: "load_state_dict demo_lib_engine_raises = Inr demo_net"
      and v: "showInNetron demo_lib_engine_raises = (\<lambda>d path. None)"
      by (simp_all add: demo_lib_engine_raises_def demo_lib_def)
    have l: "verify_loop demo_lib_engine_raises demo_prepared (input_tensor demo_data)
        demo_brevitas (\<lambda>i. 0) [] (0, 0) = Inr (0, 0)"
      by simp
    note b = demo_engine_raises_body[of "\<lambda>i. 0" "(0, 0)"]
    note N = failures_propagate[where L = demo_lib_engine_raises
        and d = demo_disk and rng = "\<lambda>i. 0"
        and a = "\<lparr>raised = LibraryError ''shape mismatch'',
          disk_then = demo_disk(''cybsec-mlp-verified.onnx'' \<mapsto> model_for_sim demo_prepared),
          tally_then = Some (0, 0)\<rparr>",
      THEN conjunct1]
    have "\<exists>pre i post. [0..<n_verification_inputs] = pre @ i # post \<and>
        verify_loop demo_lib_engine_raises demo_prepared (input_tensor demo_data)
          demo_brevitas (\<lambda>i. 0) pre (0, 0) = Inr (0, 0) \<and>
        verify_body demo_lib_engine_raises demo_prepared (input_tensor demo_data)
          demo_brevitas (\<lambda>i. 0) i (0, 0) = Inl (LibraryError ''shape mismatch'')"
      using l b upt_100_Cons by blast
    then show ?thesis
      unfolding N demo_brevitas_def
      by (simp add: demo_engine_raises_prepare u s v del: verify_loop.simps)
  qed
  from 1 2 3 4 5 show ?thesis by blast
qed

section \<open>Evaluation mode\<close>

text \<open>
  \<^verbatim>\<open>brevitas_model.eval()\<close> clears the training flag before the loop, so the loop runs
  the network with the flag cleared only. Whether the network's output then still depends
  on the random numbers drawn is a matter of the library.
\<close>

lemma forward_eval_mode:
  "forward (eval_mode bm) r x = net bm False r x"
  by (simp add: forward_def eval_mode_def)

lemma verify_body_eval_indep:
  assumes "\<forall>r r' x. net bm False r x = net bm False r' x"
  shows "verify_body L p inp (eval_mode bm) rng i t = verify_body L p inp (eval_mode bm) rng' i t"
proof -
  from assms have "\<And>x. forward (eval_mode bm) (rng i) x = forward (eval_mode bm) (rng' i) x"
    unfolding forward_eval_mode by blast
  then have c: "\<And>x. compare_outputs L p (eval_mode bm) (rng i) x t =
      compare_outputs L p (eval_mode bm) (rng' i) x t"
    by (simp add: compare_outputs_def inference_with_brevitas_threshold)
  show ?thesis
    unfolding verify_body_def c ..
qed

lemma verify_loop_eval_indep:
  assumes "\<forall>r r' x. net bm False r x = net bm False r' x"
  shows "verify_loop L p inp (eval_mode bm) rng ks t = verify_loop L p inp (eval_mode bm) rng' ks t"
proof (induction ks arbitrary: t)
  case Nil
  show ?case by simp
next
  case (Cons k ks)
  show ?case
    unfolding verify_loop.simps verify_body_eval_indep[OF assms, of L p inp rng k t rng'] Cons.IH ..
qed

end
